theory Spec2Isabelle
  imports Complex_Main
begin

section \<open>Conventions of the embedding\<close>

text \<open>
  The program is \<^verbatim>\<open>motorlib/motor.py\<close> with \<^verbatim>\<open>motorlib/geometry.py\<close>.

  \<^item> A Python float is a \<^typ>\<open>real\<close>, and \<^verbatim>\<open>+\<close>, \<^verbatim>\<open>-\<close>, \<^verbatim>\<open>*\<close> and
    \<^verbatim>\<open>/\<close> are those of the real numbers, with one exception: the condition of the
    \<^verbatim>\<open>while\<close> loop of \<^verbatim>\<open>runSimulation\<close> decides when a run ends, and its two
    multiplications are those of IEEE 754 doubles, rounded to the nearest double with ties
    to even, with subnormal numbers and with overflow to infinity.
  \<^item> What a float operation does beyond returning a finite number is a branch of the model:
    a division by zero raises \<^verbatim>\<open>ZeroDivisionError\<close>, a power whose value is beyond the
    largest double raises \<^verbatim>\<open>OverflowError\<close>, a negative base under a fractional
    exponent leaves the real numbers (Python answers with a complex number).
  \<^item> The exit pressure of the nozzle comes from a numeric solver and is a
    \<^verbatim>\<open>numpy.float64\<close>: it can be NaN, and arithmetic on it yields NaN where
    Python's own floats would raise or turn complex. Such a value is a
    \<^typ>\<open>real option\<close>, with \<^term>\<open>None\<close> for NaN.
  \<^item> An exception is the left summand of \<open>error + 'a\<close>.
  \<^item> The \<^verbatim>\<open>while\<close> loop of \<^verbatim>\<open>runSimulation\<close> may run forever; it is a
    partial function in the option monad, so \<^term>\<open>None\<close> is a run that never returns.
  \<^item> The classes \<^verbatim>\<open>grain\<close>, \<^verbatim>\<open>nozzle\<close>, \<^verbatim>\<open>propellant\<close>,
    \<^verbatim>\<open>simulationResult\<close>, \<^verbatim>\<open>simAlert\<close> and the property classes are imported by
    \<^verbatim>\<open>motor.py\<close> but their files are not part of the sources at hand. Their data is
    modelled from the specification; their behaviour that the specification leaves open
    is a parameter (the record \<open>collab\<close> below).
\<close>

datatype error =
    ZeroDivisionError
  | IndexError
  | ValueError
  | AttributeError
  | KeyError
  | OverflowError
  | ComplexResult
  | NotFinite

definition bindE :: "error + 'a \<Rightarrow> ('a \<Rightarrow> error + 'b) \<Rightarrow> error + 'b" where
  "bindE m f = (case m of Inl e \<Rightarrow> Inl e | Inr x \<Rightarrow> f x)"

fun mapE :: "('a \<Rightarrow> error + 'b) \<Rightarrow> 'a list \<Rightarrow> error + 'b list" where
  "mapE f [] = Inr []"
| "mapE f (x # xs) = bindE (f x) (\<lambda>y. bindE (mapE f xs) (\<lambda>ys. Inr (y # ys)))"

subsection \<open>Float arithmetic\<close>

text \<open>\<^verbatim>\<open>a / b\<close> on Python floats.\<close>

definition pydiv :: "real \<Rightarrow> real \<Rightarrow> error + real" where
  "pydiv a b = (if b = 0 then Inl ZeroDivisionError else Inr (a / b))"

definition isIntegral :: "real \<Rightarrow> bool" where
  "isIntegral y = (of_int \<lfloor>y\<rfloor> = y)"

text \<open>The real power of a non-zero base under an integral exponent.\<close>

definition intPower :: "real \<Rightarrow> real \<Rightarrow> real" where
  "intPower x y = (if x < 0 then (if even \<lfloor>y\<rfloor> then 1 else - 1) * ((- x) powr y) else x powr y)"

text \<open>
  The largest double is \<open>2 ^ 1024 - 2 ^ 971\<close>. A value overflows when rounding to the
  nearest double takes it past that, which is from \<open>2 ^ 1024 - 2 ^ 970\<close> on, half a unit
  in the last place above the largest double.
\<close>

definition overflowThreshold :: real where
  "overflowThreshold = 2 ^ 1024 - 2 ^ 970"

definition overflows :: "real \<Rightarrow> bool" where
  "overflows v = (overflowThreshold \<le> \<bar>v\<bar>)"

text \<open>
  \<^verbatim>\<open>x ** y\<close> on Python floats: anything to the power 0 is 1; 0 to a negative power
  raises; a negative base needs an integral exponent, otherwise the result is complex;
  a result that overflows raises.
\<close>

definition pypow :: "real \<Rightarrow> real \<Rightarrow> error + real" where
  "pypow x y =
     (if y = 0 then Inr 1
      else if x = 0 then (if y < 0 then Inl ZeroDivisionError else Inr 0)
      else if x < 0 \<and> \<not> isIntegral y then Inl ComplexResult
      else if overflows (intPower x y) then Inl OverflowError
      else Inr (intPower x y))"

type_synonym npfloat = "real option"

definition np_isnan :: "npfloat \<Rightarrow> bool" where
  "np_isnan f = (f = None)"

text \<open>A comparison with NaN is false.\<close>

definition np_less :: "npfloat \<Rightarrow> real \<Rightarrow> bool" where
  "np_less f c = (case f of None \<Rightarrow> False | Some x \<Rightarrow> x < c)"

definition np_map :: "(real \<Rightarrow> real) \<Rightarrow> npfloat \<Rightarrow> npfloat" where
  "np_map f x = map_option f x"

definition np_add :: "npfloat \<Rightarrow> npfloat \<Rightarrow> npfloat" where
  "np_add x y = (case x of None \<Rightarrow> None | Some a \<Rightarrow> (case y of None \<Rightarrow> None | Some b \<Rightarrow> Some (a + b)))"

text \<open>
  \<^verbatim>\<open>x ** y\<close> with a \<^verbatim>\<open>numpy.float64\<close> base: a negative base under a fractional
  exponent is NaN; 0 to a negative power is infinite, where the finite floats of this
  model end.
\<close>

definition np_pow :: "npfloat \<Rightarrow> real \<Rightarrow> error + npfloat" where
  "np_pow b y =
     (if y = 0 then Inr (Some 1)
      else case b of
        None \<Rightarrow> Inr None
      | Some x \<Rightarrow>
          if x = 0 then (if y < 0 then Inl NotFinite else Inr (Some 0))
          else if x < 0 \<and> \<not> isIntegral y then Inr None
          else Inr (Some (intPower x y)))"

subsection \<open>Double-precision multiplication\<close>

text \<open>
  A double has 53 significant bits. \<open>binade x\<close> is the exponent of the power of two at
  or below \<open>\<bar>x\<bar>\<close>, and not less than -1022, where the subnormal numbers begin; \<open>ulp x\<close>
  is the distance between neighbouring doubles there. \<open>roundDouble x\<close> is the double
  nearest to \<open>x\<close>, the one with the even last bit when \<open>x\<close> lies halfway between two;
  it is used below the overflow threshold only.
\<close>

definition binade :: "real \<Rightarrow> int" where
  "binade x = max (- 1022) \<lfloor>log 2 \<bar>x\<bar>\<rfloor>"

definition ulp :: "real \<Rightarrow> real" where
  "ulp x = 2 powr (of_int (binade x) - 52)"

definition roundHalfEven :: "real \<Rightarrow> int" where
  "roundHalfEven y =
     (let f = \<lfloor>y\<rfloor>; d = y - of_int f
      in if d < 1 / 2 then f else if 1 / 2 < d then f + 1 else if even f then f else f + 1)"

definition roundDouble :: "real \<Rightarrow> real" where
  "roundDouble x = (if x = 0 then 0 else of_int (roundHalfEven (x / ulp x)) * ulp x)"

text \<open>The value of a float expression: a finite number, an infinity or NaN.\<close>

datatype pyfloat = Finite real | PosInf | NegInf | NaN

text \<open>\<^verbatim>\<open>a * b\<close> on doubles.\<close>

fun fmul :: "pyfloat \<Rightarrow> pyfloat \<Rightarrow> pyfloat" where
  "fmul (Finite x) (Finite y) =
     (if overflows (x * y) then (if 0 < x * y then PosInf else NegInf)
      else Finite (roundDouble (x * y)))"
| "fmul (Finite x) PosInf = (if x = 0 then NaN else if 0 < x then PosInf else NegInf)"
| "fmul (Finite x) NegInf = (if x = 0 then NaN else if 0 < x then NegInf else PosInf)"
| "fmul PosInf (Finite y) = (if y = 0 then NaN else if 0 < y then PosInf else NegInf)"
| "fmul NegInf (Finite y) = (if y = 0 then NaN else if 0 < y then NegInf else PosInf)"
| "fmul PosInf PosInf = PosInf"
| "fmul PosInf NegInf = NegInf"
| "fmul NegInf PosInf = NegInf"
| "fmul NegInf NegInf = PosInf"
| "fmul NaN b = NaN"
| "fmul a NaN = NaN"

text \<open>\<^verbatim>\<open>a > b\<close> for a finite \<open>a\<close>; a comparison with NaN is false.\<close>

fun fgreater :: "real \<Rightarrow> pyfloat \<Rightarrow> bool" where
  "fgreater a (Finite b) = (b < a)"
| "fgreater a PosInf = False"
| "fgreater a NegInf = True"
| "fgreater a NaN = False"

text \<open>The literal \<^verbatim>\<open>0.01\<close>: the double nearest to one hundredth.\<close>

definition lit001 :: real where
  "lit001 = roundDouble (1 / 100)"

subsection \<open>geometry.py\<close>

definition circleArea :: "real \<Rightarrow> real" where
  "circleArea d = ((d / 2) ^ 2) * pi"

subsection \<open>Data model\<close>

datatype simAlertLevel = ERROR | WARNING

datatype simAlertType = GEOMETRY | CONSTRAINT

record simAlert =
  level :: simAlertLevel
  alertType :: simAlertType
  description :: string
  location :: string

text \<open>
  Modelled from the spec: the class \<^verbatim>\<open>simulationResult\<close> is missing. Its seven channels
  are append-only lists (\<^verbatim>\<open>addData\<close> appends one sample), the last three holding one
  vector per sample; \<^verbatim>\<open>success\<close> starts false and the alert list starts empty.
\<close>

record simulationResult =
  ch_time :: "real list"
  ch_kn :: "real list"
  ch_pressure :: "real list"
  ch_force :: "real list"
  ch_mass :: "real list list"
  ch_massFlow :: "real list list"
  ch_massFlux :: "real list list"
  success :: bool
  alerts :: "simAlert list"

definition newSimulationResult :: simulationResult where
  "newSimulationResult =
     \<lparr>ch_time = [], ch_kn = [], ch_pressure = [], ch_force = [], ch_mass = [],
      ch_massFlow = [], ch_massFlux = [], success = False, alerts = []\<rparr>"

definition addAlert :: "simAlert \<Rightarrow> simulationResult \<Rightarrow> simulationResult" where
  "addAlert al sr = sr\<lparr>alerts := alerts sr @ [al]\<rparr>"

definition getAlertsByLevel :: "simAlertLevel \<Rightarrow> simulationResult \<Rightarrow> simAlert list" where
  "getAlertsByLevel lv sr = filter (\<lambda>al. level al = lv) (alerts sr)"

text \<open>\<^verbatim>\<open>getLast\<close> reads \<^verbatim>\<open>data[-1]\<close>, \<^verbatim>\<open>getMax\<close> is \<^verbatim>\<open>max(data)\<close>.\<close>

definition getLast :: "'a list \<Rightarrow> error + 'a" where
  "getLast xs = (if xs = [] then Inl IndexError else Inr (last xs))"

definition getMax :: "real list \<Rightarrow> error + real" where
  "getMax xs = (if xs = [] then Inl ValueError else Inr (Max (set xs)))"

text \<open>
  Modelled from the spec: the peak mass flux is taken across all samples of the
  per-grain mass-flux channel, the peak pressure across the pressure channel.
\<close>

definition getPeakMassFlux :: "simulationResult \<Rightarrow> error + real" where
  "getPeakMassFlux sr = bindE (mapE getMax (ch_massFlux sr)) getMax"

definition getMaxPressure :: "simulationResult \<Rightarrow> error + real" where
  "getMaxPressure sr = getMax (ch_pressure sr)"

text \<open>Reading and writing \<^verbatim>\<open>xs[i]\<close> with a non-negative index.\<close>

definition getItem :: "'a list \<Rightarrow> nat \<Rightarrow> error + 'a" where
  "getItem xs i = (if i < length xs then Inr (xs ! i) else Inl IndexError)"

definition setItem :: "'a list \<Rightarrow> nat \<Rightarrow> 'a \<Rightarrow> error + 'a list" where
  "setItem xs i v = (if i < length xs then Inr (xs[i := v]) else Inl IndexError)"

text \<open>The property values of a propellant, read by \<^verbatim>\<open>getProperty\<close>.\<close>

record propellant =
  prop_k :: real
  prop_t :: real
  prop_m :: real
  prop_density :: real
  prop_a :: real
  prop_n :: real

text \<open>
  Modelled from the spec: a nozzle holds its throat and exit diameters and an efficiency,
  and derives the throat and exit areas by the circle-area formula.
\<close>

record nozzle =
  throat :: real
  exit :: real
  efficiency :: real

definition getThroatArea :: "nozzle \<Rightarrow> real" where
  "getThroatArea nz = circleArea (throat nz)"

definition getExitArea :: "nozzle \<Rightarrow> real" where
  "getExitArea nz = circleArea (exit nz)"

record MotorConfig =
  maxPressure :: real
  maxMassFlux :: real
  minPortThroat :: real
  burnoutWebThres :: real
  burnoutThrustThres :: real
  timestep :: real
  ambPressure :: real
  mapDim :: int

record 'g motor =
  grains :: "'g list"
  propellant :: "propellant option"
  nozzle :: nozzle
  config :: MotorConfig

text \<open>
  The collaborators of \<^verbatim>\<open>motor.py\<close> whose code is missing and whose behaviour the
  specification leaves open: the methods of a grain of any variant \<open>'g\<close>, the geometry
  check and the exit-pressure solver of the nozzle, and Python's printing and rounding of
  floats. \<open>isEndBurningGrain\<close> is the test \<^verbatim>\<open>type(grain) is endBurningGrain\<close>.
\<close>

record 'g collab =
  isEndBurningGrain :: "'g \<Rightarrow> bool"
  getGeometryErrors :: "'g \<Rightarrow> simAlert list"
  simulationSetup :: "MotorConfig \<Rightarrow> 'g \<Rightarrow> 'g"
  getSurfaceAreaAtRegression :: "'g \<Rightarrow> real \<Rightarrow> real"
  isWebLeft :: "'g \<Rightarrow> real \<Rightarrow> real \<Rightarrow> bool"
  getWebLeft :: "'g \<Rightarrow> real \<Rightarrow> real"
  getVolumeAtRegression :: "'g \<Rightarrow> real \<Rightarrow> real"
  getPortArea :: "'g \<Rightarrow> real \<Rightarrow> real option"
  getPeakMassFlux_grain :: "'g \<Rightarrow> real \<Rightarrow> real \<Rightarrow> real \<Rightarrow> real \<Rightarrow> real \<Rightarrow> real"
  nozzleGeometryErrors :: "nozzle \<Rightarrow> simAlert list"
  getExitPressure :: "nozzle \<Rightarrow> real \<Rightarrow> real \<Rightarrow> error + npfloat"
  round3 :: "real \<Rightarrow> real"
  strFloat :: "real \<Rightarrow> string"

section \<open>The ballistics solver\<close>

text \<open>\<^verbatim>\<open>int(b)\<close> of a Python \<^verbatim>\<open>bool\<close>.\<close>

definition intOfBool :: "bool \<Rightarrow> real" where
  "intOfBool b = (if b then 1 else 0)"

definition calcKN :: "'g collab \<Rightarrow> 'g motor \<Rightarrow> real list \<Rightarrow> real \<Rightarrow> error + real" where
  "calcKN E mot r webThres =
     (let surfArea = sum_list (map (\<lambda>(gr, reg).
                        getSurfaceAreaAtRegression E gr reg * intOfBool (isWebLeft E gr reg webThres))
                      (zip (grains mot) r));
          nozz = getThroatArea (nozzle mot)
      in pydiv surfArea nozz)"

definition calcIdealPressure ::
  "'g collab \<Rightarrow> 'g motor \<Rightarrow> real list \<Rightarrow> real option \<Rightarrow> real \<Rightarrow> error + real" where
  "calcIdealPressure E mot r knOpt webThres =
     (case propellant mot of
        None \<Rightarrow> Inl AttributeError
      | Some pr \<Rightarrow>
          (let k = prop_k pr; t = prop_t pr; m = prop_m pr;
               p = prop_density pr; a = prop_a pr; n = prop_n pr
           in bindE (case knOpt of None \<Rightarrow> calcKN E mot r webThres | Some v \<Rightarrow> Inr v) (\<lambda>kn.
              let num = kn * p * a in
              bindE (pydiv 1 (1 - n)) (\<lambda>exponent.
              bindE (pydiv 8314 m) (\<lambda>q1.
              bindE (pydiv k (q1 * t)) (\<lambda>q2.
              bindE (pydiv 2 (k + 1)) (\<lambda>q3.
              bindE (pydiv (k + 1) (k - 1)) (\<lambda>q4.
              bindE (pypow q3 q4) (\<lambda>q5.
              bindE (pypow (q2 * q5) (1 / 2)) (\<lambda>denom.
              bindE (pydiv num denom) (\<lambda>q6.
              pypow q6 exponent)))))))))))"

text \<open>
  Lines 94 to 102 of \<^verbatim>\<open>calcForce\<close>: the thrust before it is clamped. The exit
  pressure \<open>p_e\<close> is a \<^verbatim>\<open>numpy.float64\<close>, and so is everything computed from it.
\<close>

definition thrust :: "'g collab \<Rightarrow> 'g motor \<Rightarrow> real \<Rightarrow> real \<Rightarrow> real \<Rightarrow> error + npfloat" where
  "thrust E mot k p_c p_a =
     (let t_a = getThroatArea (nozzle mot);
          e_a = getExitArea (nozzle mot)
      in bindE (getExitPressure E (nozzle mot) k p_c) (\<lambda>p_e.
         bindE (pydiv (2 * (k ^ 2)) (k - 1)) (\<lambda>t1.
         bindE (pydiv 2 (k + 1)) (\<lambda>q1.
         bindE (pydiv (k + 1) (k - 1)) (\<lambda>q2.
         bindE (pypow q1 q2) (\<lambda>t2.
         bindE (pydiv (k - 1) k) (\<lambda>q3.
         bindE (np_pow (np_map (\<lambda>x. x / p_c) p_e) q3) (\<lambda>q4.
         let t3 = np_map (\<lambda>x. 1 - x) q4 in
         bindE (np_pow (np_map (\<lambda>x. t1 * t2 * x) t3) (1 / 2)) (\<lambda>sr.
         Inr (np_add (np_map (\<lambda>x. efficiency (nozzle mot) * t_a * p_c * x) sr)
                     (np_map (\<lambda>x. (x - p_a) * e_a) p_e)))))))))))"

text \<open>Lines 103 and 104: \<^verbatim>\<open>if np.isnan(f) or f < 0: f = 0\<close>.\<close>

definition clampForce :: "npfloat \<Rightarrow> real" where
  "clampForce f = (if np_isnan f \<or> np_less f 0 then 0 else the f)"

definition calcForce ::
  "'g collab \<Rightarrow> 'g motor \<Rightarrow> real list \<Rightarrow> real option \<Rightarrow> real \<Rightarrow> real \<Rightarrow> error + real" where
  "calcForce E mot r casePressure ambientPressure webThres =
     (case propellant mot of
        None \<Rightarrow> Inl AttributeError
      | Some pr \<Rightarrow>
          bindE (case casePressure of
                   None \<Rightarrow> calcIdealPressure E mot r None webThres
                 | Some v \<Rightarrow> Inr v) (\<lambda>p_c.
          if p_c = 0 then Inr 0
          else bindE (thrust E mot (prop_k pr) p_c ambientPressure) (\<lambda>f. Inr (clampForce f))))"

section \<open>The simulation engine\<close>

subsection \<open>Validation\<close>

text \<open>\<^verbatim>\<open>str(n)\<close> of a non-negative Python \<^verbatim>\<open>int\<close>.\<close>

fun strNat :: "nat \<Rightarrow> string" where
  "strNat n = (if n < 10 then [char_of (48 + n)] else strNat (n div 10) @ [char_of (48 + n mod 10)])"

declare strNat.simps [simp del]

definition noGrainsAlert :: simAlert where
  "noGrainsAlert =
     \<lparr>level = ERROR, alertType = CONSTRAINT,
      description = ''Motor must have at least one propellant grain'', location = ''Motor''\<rparr>"

definition endBurnerAlert :: "nat \<Rightarrow> simAlert" where
  "endBurnerAlert gid =
     \<lparr>level = ERROR, alertType = CONSTRAINT,
      description = ''End burning grains must be the forward-most grain in the motor'',
      location = ''Grain '' @ strNat (gid + 1)\<rparr>"

definition noPropellantAlert :: simAlert where
  "noPropellantAlert =
     \<lparr>level = ERROR, alertType = CONSTRAINT,
      description = ''Motor must have a propellant set'', location = ''Motor''\<rparr>"

text \<open>The alerts of one pass of the loop over \<^verbatim>\<open>enumerate(self.grains)\<close>.\<close>

definition grainAlerts :: "'g collab \<Rightarrow> nat \<times> 'g \<Rightarrow> simAlert list" where
  "grainAlerts E = (\<lambda>(gid, grain).
     (if isEndBurningGrain E grain \<and> gid \<noteq> 0 then [endBurnerAlert gid] else [])
     @ map (\<lambda>alert. alert\<lparr>location := ''Grain '' @ strNat (gid + 1)\<rparr>) (getGeometryErrors E grain))"

text \<open>All alerts of the validation phase, in the order the source adds them.\<close>

definition validationAlerts :: "'g collab \<Rightarrow> 'g motor \<Rightarrow> simAlert list" where
  "validationAlerts E mot =
     (if length (grains mot) = 0 then [noGrainsAlert] else [])
     @ concat (map (grainAlerts E) (enumerate 0 (grains mot)))
     @ nozzleGeometryErrors E (nozzle mot)
     @ (if propellant mot = None then [noPropellantAlert] else [])"

definition validate :: "'g collab \<Rightarrow> 'g motor \<Rightarrow> simulationResult" where
  "validate E mot = foldl (\<lambda>sr al. addAlert al sr) newSimulationResult (validationAlerts E mot)"

subsection \<open>Initial samples\<close>

definition zeros :: "'g motor \<Rightarrow> real list" where
  "zeros mot = map (\<lambda>grain. 0) (grains mot)"

text \<open>The sample at t = 0, then the sample at t = ts with the motor ignited.\<close>

definition seedSamples ::
  "'g collab \<Rightarrow> 'g motor \<Rightarrow> real \<Rightarrow> simulationResult \<Rightarrow> error + simulationResult" where
  "seedSamples E mot density simRes =
     (let cfg = config mot; ts = timestep cfg; webThres = burnoutWebThres cfg;
          perGrainReg = zeros mot;
          initMass = map (\<lambda>grain. getVolumeAtRegression E grain 0 * density) (grains mot);
          sr0 = simRes\<lparr>ch_time := ch_time simRes @ [0], ch_kn := ch_kn simRes @ [0],
                       ch_pressure := ch_pressure simRes @ [0], ch_force := ch_force simRes @ [0],
                       ch_mass := ch_mass simRes @ [initMass],
                       ch_massFlow := ch_massFlow simRes @ [zeros mot],
                       ch_massFlux := ch_massFlux simRes @ [zeros mot]\<rparr>
      in bindE (calcKN E mot perGrainReg webThres) (\<lambda>kn1.
         bindE (calcIdealPressure E mot perGrainReg None webThres) (\<lambda>p1.
         bindE (calcForce E mot perGrainReg None (ambPressure cfg) webThres) (\<lambda>f1.
         Inr (sr0\<lparr>ch_time := ch_time sr0 @ [ts], ch_kn := ch_kn sr0 @ [kn1],
                   ch_pressure := ch_pressure sr0 @ [p1], ch_force := ch_force sr0 @ [f1],
                   ch_mass := ch_mass sr0 @ [initMass],
                   ch_massFlow := ch_massFlow sr0 @ [zeros mot],
                   ch_massFlux := ch_massFlux sr0 @ [zeros mot]\<rparr>)))))"

text \<open>The port/throat check; \<^verbatim>\<open>self.grains[-1]\<close> raises on an empty grain list.\<close>

definition portThroatAlert :: "'g collab \<Rightarrow> real \<Rightarrow> real \<Rightarrow> simAlert" where
  "portThroatAlert E ratio minAllowed =
     \<lparr>level = WARNING, alertType = CONSTRAINT,
      description = ''Initial port/throat ratio of '' @ strFloat E (round3 E ratio)
                    @ '' was less than '' @ strFloat E minAllowed,
      location = ''N/A''\<rparr>"

definition checkPortThroat ::
  "'g collab \<Rightarrow> 'g motor \<Rightarrow> simulationResult \<Rightarrow> error + simulationResult" where
  "checkPortThroat E mot simRes =
     bindE (getLast (grains mot)) (\<lambda>aft.
     case getPortArea E aft 0 of
       None \<Rightarrow> Inr simRes
     | Some aftPort \<Rightarrow>
         (let minAllowed = minPortThroat (config mot) in
          bindE (pydiv aftPort (circleArea (throat (nozzle mot)))) (\<lambda>ratio.
          if ratio < minAllowed then Inr (addAlert (portThroatAlert E ratio minAllowed) simRes)
          else Inr simRes)))"

subsection \<open>One timestep\<close>

text \<open>The variables the sweep over the grains updates.\<close>

record sweepVars =
  mf :: real
  perGrainMass :: "real list"
  perGrainMassFlow :: "real list"
  perGrainMassFlux :: "real list"
  perGrainReg :: "real list"

fun forEachE :: "('a \<Rightarrow> 's \<Rightarrow> error + 's) \<Rightarrow> 'a list \<Rightarrow> 's \<Rightarrow> error + 's" where
  "forEachE f [] s = Inr s"
| "forEachE f (x # xs) s = bindE (f x s) (forEachE f xs)"

text \<open>The body of \<^verbatim>\<open>for gid, grain in enumerate(self.grains)\<close>.\<close>

definition sweepGrain ::
  "'g collab \<Rightarrow> simulationResult \<Rightarrow> real \<Rightarrow> real \<Rightarrow> real \<Rightarrow> real \<Rightarrow> real
     \<Rightarrow> nat \<times> 'g \<Rightarrow> sweepVars \<Rightarrow> error + sweepVars" where
  "sweepGrain E simRes ts ballA ballN density webThres = (\<lambda>(gid, grain) v.
     bindE (getItem (perGrainReg v) gid) (\<lambda>r0.
     bindE (if getWebLeft E grain r0 > webThres then
              bindE (getLast (ch_pressure simRes)) (\<lambda>pLast.
              bindE (pypow pLast ballN) (\<lambda>pw.
              let reg = ts * ballA * pw in
              bindE (setItem (perGrainMassFlux v) gid
                       (getPeakMassFlux_grain E grain (mf v) ts r0 reg density)) (\<lambda>flux.
              bindE (setItem (perGrainMass v) gid
                       (getVolumeAtRegression E grain r0 * density)) (\<lambda>mass.
              bindE (getLast (ch_mass simRes)) (\<lambda>lastMass.
              bindE (getItem lastMass gid) (\<lambda>oldMass.
              bindE (getItem mass gid) (\<lambda>newMass.
              bindE (pydiv (oldMass - newMass) ts) (\<lambda>dm.
              bindE (setItem (perGrainReg v) gid (r0 + reg)) (\<lambda>regs.
              Inr (v\<lparr>mf := mf v + dm, perGrainMass := mass, perGrainMassFlux := flux,
                     perGrainReg := regs\<rparr>))))))))))
            else Inr v) (\<lambda>v'.
     bindE (setItem (perGrainMassFlow v') gid (mf v')) (\<lambda>flow.
     Inr (v'\<lparr>perGrainMassFlow := flow\<rparr>)))))"

definition sweep ::
  "'g collab \<Rightarrow> 'g motor \<Rightarrow> simulationResult \<Rightarrow> real \<Rightarrow> real \<Rightarrow> real \<Rightarrow> real list
     \<Rightarrow> error + sweepVars" where
  "sweep E mot simRes ballA ballN density regs =
     forEachE (sweepGrain E simRes (timestep (config mot)) ballA ballN density
                 (burnoutWebThres (config mot)))
       (enumerate 0 (grains mot))
       \<lparr>mf = 0, perGrainMass = zeros mot, perGrainMassFlow = zeros mot,
        perGrainMassFlux = zeros mot, perGrainReg = regs\<rparr>"

text \<open>
  The state the loop carries from one test of its condition to the next: the result so
  far, the regression of every grain, and the state of the caller's progress callback.
\<close>

record 's simState =
  st_simRes :: simulationResult
  st_reg :: "real list"
  st_cb :: 's

datatype ('r, 's) flow = Return 'r | Continue 's

text \<open>
  The right-hand side of the loop condition, \<^verbatim>\<open>burnoutThrustThres * 0.01 * getMax()\<close>:
  two double multiplications, from left to right.
\<close>

definition thrustBar :: "real \<Rightarrow> real \<Rightarrow> pyfloat" where
  "thrustBar thres fMax = fmul (fmul (Finite thres) (Finite lit001)) (Finite fMax)"

text \<open>The condition of the \<^verbatim>\<open>while\<close> loop.\<close>

definition loopCondition :: "'g motor \<Rightarrow> simulationResult \<Rightarrow> error + bool" where
  "loopCondition mot simRes =
     bindE (getLast (ch_force simRes)) (\<lambda>fLast.
     bindE (getMax (ch_force simRes)) (\<lambda>fMax.
     Inr (fgreater fLast (thrustBar (burnoutThrustThres (config mot)) fMax))))"

text \<open>
  The value handed to the callback: one minus the largest fraction of web left.
\<close>

definition progressValue :: "'g collab \<Rightarrow> 'g motor \<Rightarrow> real list \<Rightarrow> error + real" where
  "progressValue E mot regs =
     bindE (mapE (\<lambda>(g, r). pydiv (getWebLeft E g r) (getWebLeft E g 0)) (zip (grains mot) regs))
       (\<lambda>fracs. bindE (getMax fracs) (\<lambda>progress. Inr (1 - progress)))"

text \<open>
  The body of the \<^verbatim>\<open>while\<close> loop. \<open>Return\<close> is the \<^verbatim>\<open>return simRes\<close> after a
  callback that asked to cancel; \<open>Continue\<close> goes back to the loop condition. The
  callback is a function of its own state and the progress value; it answers with its
  verdict and its next state.
\<close>

definition burnStep ::
  "'g collab \<Rightarrow> 'g motor \<Rightarrow> ('s \<Rightarrow> real \<Rightarrow> bool \<times> 's) option \<Rightarrow> real \<Rightarrow> real \<Rightarrow> real
     \<Rightarrow> 's simState \<Rightarrow> error + (simulationResult, 's simState) flow" where
  "burnStep E mot callback ballA ballN density st =
     (let cfg = config mot; ts = timestep cfg; webThres = burnoutWebThres cfg;
          simRes = st_simRes st
      in bindE (sweep E mot simRes ballA ballN density (st_reg st)) (\<lambda>v.
         let sr1 = simRes\<lparr>ch_mass := ch_mass simRes @ [perGrainMass v],
                          ch_massFlow := ch_massFlow simRes @ [perGrainMassFlow v],
                          ch_massFlux := ch_massFlux simRes @ [perGrainMassFlux v]\<rparr> in
         bindE (calcKN E mot (perGrainReg v) webThres) (\<lambda>kn.
         let sr2 = sr1\<lparr>ch_kn := ch_kn sr1 @ [kn]\<rparr> in
         bindE (getLast (ch_kn sr2)) (\<lambda>knLast.
         bindE (calcIdealPressure E mot (perGrainReg v) (Some knLast) webThres) (\<lambda>pres.
         let sr3 = sr2\<lparr>ch_pressure := ch_pressure sr2 @ [pres]\<rparr> in
         bindE (getLast (ch_pressure sr3)) (\<lambda>pLast.
         bindE (calcForce E mot (perGrainReg v) (Some pLast) (ambPressure cfg) webThres) (\<lambda>f.
         let sr4 = sr3\<lparr>ch_force := ch_force sr3 @ [f]\<rparr> in
         bindE (getLast (ch_time sr4)) (\<lambda>tLast.
         let sr5 = sr4\<lparr>ch_time := ch_time sr4 @ [tLast + ts]\<rparr> in
         case callback of
           None \<Rightarrow> Inr (Continue \<lparr>st_simRes = sr5, st_reg = perGrainReg v, st_cb = st_cb st\<rparr>)
         | Some cbf \<Rightarrow>
             bindE (progressValue E mot (perGrainReg v)) (\<lambda>pv.
             let answer = cbf (st_cb st) pv in
             if fst answer then Inr (Return sr5)
             else Inr (Continue \<lparr>st_simRes = sr5, st_reg = perGrainReg v,
                                 st_cb = snd answer\<rparr>))))))))))"

subsection \<open>The loop and the run\<close>

partial_function (option) burnLoop ::
  "'g collab \<Rightarrow> 'g motor \<Rightarrow> ('s \<Rightarrow> real \<Rightarrow> bool \<times> 's) option \<Rightarrow> real \<Rightarrow> real \<Rightarrow> real
     \<Rightarrow> 's simState \<Rightarrow> (error + (simulationResult, 's simState) flow) option" where
  "burnLoop E mot callback ballA ballN density st =
     (case loopCondition mot (st_simRes st) of
        Inl e \<Rightarrow> Some (Inl e)
      | Inr go \<Rightarrow>
          if go then
            (case burnStep E mot callback ballA ballN density st of
               Inl e \<Rightarrow> Some (Inl e)
             | Inr (Return res) \<Rightarrow> Some (Inr (Return res))
             | Inr (Continue st') \<Rightarrow> burnLoop E mot callback ballA ballN density st')
          else Some (Inr (Continue st)))"

definition massFluxAlert :: simAlert where
  "massFluxAlert =
     \<lparr>level = WARNING, alertType = CONSTRAINT,
      description = ''Peak mass flux exceeded configured limit'', location = ''Motor''\<rparr>"

definition pressureAlert :: simAlert where
  "pressureAlert =
     \<lparr>level = WARNING, alertType = CONSTRAINT,
      description = ''Max pressure exceeded configured limit'', location = ''Motor''\<rparr>"

text \<open>What follows the loop on natural burnout.\<close>

definition finish :: "'g motor \<Rightarrow> simulationResult \<Rightarrow> error + simulationResult" where
  "finish mot simRes =
     (let sr1 = simRes\<lparr>success := True\<rparr> in
      bindE (getPeakMassFlux sr1) (\<lambda>peak.
      let sr2 = (if peak > maxMassFlux (config mot) then addAlert massFluxAlert sr1 else sr1) in
      bindE (getMaxPressure sr2) (\<lambda>pmax.
      Inr (if pmax > maxPressure (config mot) then addAlert pressureAlert sr2 else sr2))))"

text \<open>
  Everything between the validation and the loop: the grains are set up, the two initial
  samples are appended and the port/throat ratio is checked.
\<close>

definition setupGrains :: "'g collab \<Rightarrow> 'g motor \<Rightarrow> 'g motor" where
  "setupGrains E mot = mot\<lparr>grains := map (simulationSetup E (config mot)) (grains mot)\<rparr>"

definition initialise ::
  "'g collab \<Rightarrow> 'g motor \<Rightarrow> real \<Rightarrow> simulationResult \<Rightarrow> error + simulationResult" where
  "initialise E mot density simRes =
     bindE (seedSamples E mot density simRes) (checkPortThroat E mot)"

definition runSimulation ::
  "'g collab \<Rightarrow> 'g motor \<Rightarrow> ('s \<Rightarrow> real \<Rightarrow> bool \<times> 's) option \<Rightarrow> 's
     \<Rightarrow> (error + simulationResult) option" where
  "runSimulation E mot callback s0 =
     (let simRes = validate E mot in
      if length (getAlertsByLevel ERROR simRes) > 0 then Some (Inr simRes)
      else case propellant mot of
        None \<Rightarrow> Some (Inl AttributeError)
      | Some pr \<Rightarrow>
          (let density = prop_density pr; ballA = prop_a pr; ballN = prop_n pr;
               mot' = setupGrains E mot
           in case initialise E mot' density simRes of
                Inl e \<Rightarrow> Some (Inl e)
              | Inr sr \<Rightarrow>
                  (case burnLoop E mot' callback ballA ballN density
                          \<lparr>st_simRes = sr, st_reg = zeros mot', st_cb = s0\<rparr> of
                     None \<Rightarrow> None
                   | Some (Inl e) \<Rightarrow> Some (Inl e)
                   | Some (Inr (Return res)) \<Rightarrow> Some (Inr res)
                   | Some (Inr (Continue st)) \<Rightarrow> Some (finish mot' (st_simRes st)))))"

subsection \<open>Runs, step by step\<close>

text \<open>
  The result a pass through the loop body leaves behind, whether the pass returned it or
  handed it on to the next test of the loop condition.
\<close>

definition flowResult :: "(simulationResult, 's simState) flow \<Rightarrow> simulationResult" where
  "flowResult fl = (case fl of Return res \<Rightarrow> res | Continue st \<Rightarrow> st_simRes st)"

text \<open>
  \<open>entersLoop E mot s0 pr st0\<close>: the motor passes validation with propellant \<open>pr\<close>, the
  initial samples are appended without an exception, and the loop is entered in state
  \<open>st0\<close>.
\<close>

definition entersLoop :: "'g collab \<Rightarrow> 'g motor \<Rightarrow> 's \<Rightarrow> propellant \<Rightarrow> 's simState \<Rightarrow> bool" where
  "entersLoop E mot s0 pr st0 =
     (getAlertsByLevel ERROR (validate E mot) = [] \<and> propellant mot = Some pr \<and>
      (case initialise E (setupGrains E mot) (prop_density pr) (validate E mot) of
         Inl e \<Rightarrow> False
       | Inr sr \<Rightarrow> st0 = \<lparr>st_simRes = sr, st_reg = zeros (setupGrains E mot), st_cb = s0\<rparr>))"

text \<open>
  \<open>stateAfter \<dots> k st\<close>: the state in which the loop condition is tested for the
  \<open>(k+1)\<close>-th time, when the loop started in \<open>st\<close> has completed \<open>k\<close> passes, each
  entered on a true condition and left without an exception and without a return.
\<close>

fun stateAfter ::
  "'g collab \<Rightarrow> 'g motor \<Rightarrow> ('s \<Rightarrow> real \<Rightarrow> bool \<times> 's) option \<Rightarrow> real \<Rightarrow> real \<Rightarrow> real
     \<Rightarrow> nat \<Rightarrow> 's simState \<Rightarrow> 's simState option" where
  "stateAfter E mot callback ballA ballN density 0 st = Some st"
| "stateAfter E mot callback ballA ballN density (Suc k) st =
     (case stateAfter E mot callback ballA ballN density k st of
        None \<Rightarrow> None
      | Some st1 \<Rightarrow>
          (case loopCondition mot (st_simRes st1) of
             Inr True \<Rightarrow>
               (case burnStep E mot callback ballA ballN density st1 of
                  Inr (Continue st2) \<Rightarrow> Some st2
                | _ \<Rightarrow> None)
           | _ \<Rightarrow> None))"

text \<open>
  \<open>cancelledAt \<dots> k st = Some res\<close>: the callback is invoked \<open>k\<close> times, answers false
  the first \<open>k - 1\<close> times and true the \<open>k\<close>-th time, where the loop body returns \<open>res\<close>.
\<close>

definition cancelledAt ::
  "'g collab \<Rightarrow> 'g motor \<Rightarrow> ('s \<Rightarrow> real \<Rightarrow> bool \<times> 's) \<Rightarrow> real \<Rightarrow> real \<Rightarrow> real
     \<Rightarrow> nat \<Rightarrow> 's simState \<Rightarrow> simulationResult option" where
  "cancelledAt E mot cbf ballA ballN density k st =
     (if k = 0 then None
      else case stateAfter E mot (Some cbf) ballA ballN density (k - 1) st of
        None \<Rightarrow> None
      | Some st1 \<Rightarrow>
          (case loopCondition mot (st_simRes st1) of
             Inr True \<Rightarrow>
               (case burnStep E mot (Some cbf) ballA ballN density st1 of
                  Inr (Return res) \<Rightarrow> Some res
                | _ \<Rightarrow> None)
           | _ \<Rightarrow> None))"

section \<open>The motor definition record\<close>

text \<open>
  \<^verbatim>\<open>getDict\<close> and \<^verbatim>\<open>applyDict\<close> go through the property collections of the nozzle,
  the propellant, the grains and the configuration, and through the registry
  \<^verbatim>\<open>grainTypes\<close>; these are missing and the specification says only that each yields a
  property map. They are parameters, over any type \<open>'p\<close> of property maps.
  \<open>grainTypes\<close> maps a variant tag to the grain its constructor builds.
\<close>

record ('g, 'p) propertyIO =
  nozzleGetProperties :: "nozzle \<Rightarrow> 'p"
  nozzleSetProperties :: "'p \<Rightarrow> nozzle \<Rightarrow> nozzle"
  propellantGetProperties :: "propellant \<Rightarrow> 'p"
  newPropellant :: "'p \<Rightarrow> propellant"
  geomName :: "'g \<Rightarrow> string"
  grainGetProperties :: "'g \<Rightarrow> 'p"
  grainSetProperties :: "'p \<Rightarrow> 'g \<Rightarrow> 'g"
  grainTypes :: "string \<Rightarrow> 'g option"
  configGetProperties :: "MotorConfig \<Rightarrow> 'p"
  configSetProperties :: "'p \<Rightarrow> MotorConfig \<Rightarrow> MotorConfig"

record 'p grainEntry =
  entry_type :: string
  entry_properties :: 'p

record 'p motorData =
  md_nozzle :: 'p
  md_propellant :: "'p option"
  md_grains :: "'p grainEntry list"
  md_config :: 'p

definition getDict :: "('g, 'p) propertyIO \<Rightarrow> 'g motor \<Rightarrow> 'p motorData" where
  "getDict P self =
     \<lparr>md_nozzle = nozzleGetProperties P (nozzle self),
      md_propellant = (case propellant self of
                         Some pr \<Rightarrow> Some (propellantGetProperties P pr)
                       | None \<Rightarrow> None),
      md_grains = map (\<lambda>grain. \<lparr>entry_type = geomName P grain,
                                 entry_properties = grainGetProperties P grain\<rparr>) (grains self),
      md_config = configGetProperties P (config self)\<rparr>"

text \<open>One pass of \<^verbatim>\<open>for entry in dictionary['grains']\<close>; an unknown tag raises.\<close>

definition grainFromEntry :: "('g, 'p) propertyIO \<Rightarrow> 'p grainEntry \<Rightarrow> error + 'g" where
  "grainFromEntry P entry =
     (case grainTypes P (entry_type entry) of
        None \<Rightarrow> Inl KeyError
      | Some fresh \<Rightarrow> Inr (grainSetProperties P (entry_properties entry) fresh))"

definition applyDict ::
  "('g, 'p) propertyIO \<Rightarrow> 'p motorData \<Rightarrow> 'g motor \<Rightarrow> error + 'g motor" where
  "applyDict P dictionary self =
     (let nz = nozzleSetProperties P (md_nozzle dictionary) (nozzle self);
          pr = (case md_propellant dictionary of
                  Some d \<Rightarrow> Some (newPropellant P d)
                | None \<Rightarrow> None)
      in bindE (mapE (grainFromEntry P) (md_grains dictionary)) (\<lambda>gs.
         Inr \<lparr>grains = gs, propellant = pr, nozzle = nz,
              config = configSetProperties P (md_config dictionary) (config self)\<rparr>))"

section \<open>Notions for stating the properties\<close>

text \<open>One sample appended to each of the seven channels.\<close>

definition appended ::
  "simulationResult \<Rightarrow> real \<Rightarrow> real \<Rightarrow> real \<Rightarrow> real \<Rightarrow> real list \<Rightarrow> real list \<Rightarrow> real list
     \<Rightarrow> simulationResult" where
  "appended sr t kn p f ms flows fluxes =
     sr\<lparr>ch_time := ch_time sr @ [t], ch_kn := ch_kn sr @ [kn],
        ch_pressure := ch_pressure sr @ [p], ch_force := ch_force sr @ [f],
        ch_mass := ch_mass sr @ [ms], ch_massFlow := ch_massFlow sr @ [flows],
        ch_massFlux := ch_massFlux sr @ [fluxes]\<rparr>"

text \<open>All seven channels hold \<open>n\<close> samples.\<close>

definition balanced :: "simulationResult \<Rightarrow> nat \<Rightarrow> bool" where
  "balanced sr n =
     (length (ch_time sr) = n \<and> length (ch_kn sr) = n \<and> length (ch_pressure sr) = n \<and>
      length (ch_force sr) = n \<and> length (ch_mass sr) = n \<and> length (ch_massFlow sr) = n \<and>
      length (ch_massFlux sr) = n)"

text \<open>
  \<open>lastPass \<dots> st' y\<close>: tested in state \<open>st'\<close>, the loop ends at once with outcome \<open>y\<close>:
  an exception, the return of a cancelled run, or the exit on a false condition.
\<close>

definition lastPass ::
  "'g collab \<Rightarrow> 'g motor \<Rightarrow> ('s \<Rightarrow> real \<Rightarrow> bool \<times> 's) option \<Rightarrow> real \<Rightarrow> real \<Rightarrow> real
     \<Rightarrow> 's simState \<Rightarrow> error + (simulationResult, 's simState) flow \<Rightarrow> bool" where
  "lastPass E mot callback ballA ballN density st' y =
     (case loopCondition mot (st_simRes st') of
        Inl e \<Rightarrow> y = Inl e
      | Inr go \<Rightarrow>
          if go then
            (case burnStep E mot callback ballA ballN density st' of
               Inl e \<Rightarrow> y = Inl e
             | Inr (Return res) \<Rightarrow> y = Inr (Return res)
             | Inr (Continue st2) \<Rightarrow> False)
          else y = Inr (Continue st'))"

text \<open>\<open>endsAt \<dots> st y\<close>: started in \<open>st\<close>, the loop ends with \<open>y\<close> after finitely many passes.\<close>

definition endsAt ::
  "'g collab \<Rightarrow> 'g motor \<Rightarrow> ('s \<Rightarrow> real \<Rightarrow> bool \<times> 's) option \<Rightarrow> real \<Rightarrow> real \<Rightarrow> real
     \<Rightarrow> 's simState \<Rightarrow> error + (simulationResult, 's simState) flow \<Rightarrow> bool" where
  "endsAt E mot callback ballA ballN density st y =
     (\<exists>k st'. stateAfter E mot callback ballA ballN density k st = Some st'
                \<and> lastPass E mot callback ballA ballN density st' y)"

text \<open>
  The ideal pressure as the specification words it, over the real numbers: \<open>KN\<close> sums
  the surface areas of the grains whose \<^verbatim>\<open>isWebLeft\<close> holds and divides by the throat
  area; \<open>D\<close> is a square root; the pressure is \<open>(KN \<cdot> density \<cdot> a / D)\<close> to the power
  \<open>1 / (1 - n)\<close>, with the override in place of \<open>KN\<close> when one is given.
\<close>

definition specKN :: "'g collab \<Rightarrow> 'g motor \<Rightarrow> real list \<Rightarrow> real \<Rightarrow> real" where
  "specKN E mot r webThres =
     sum_list (map (\<lambda>(gr, reg). getSurfaceAreaAtRegression E gr reg)
                 (filter (\<lambda>(gr, reg). isWebLeft E gr reg webThres) (zip (grains mot) r)))
     / getThroatArea (nozzle mot)"

definition specD :: "propellant \<Rightarrow> real" where
  "specD pr =
     sqrt ((prop_k pr / ((8314 / prop_m pr) * prop_t pr))
           * (2 / (prop_k pr + 1)) powr ((prop_k pr + 1) / (prop_k pr - 1)))"

definition specIdealPressure ::
  "'g collab \<Rightarrow> 'g motor \<Rightarrow> propellant \<Rightarrow> real list \<Rightarrow> real option \<Rightarrow> real \<Rightarrow> real" where
  "specIdealPressure E mot pr r knOpt webThres =
     ((case knOpt of None \<Rightarrow> specKN E mot r webThres | Some v \<Rightarrow> v)
        * prop_density pr * prop_a pr / specD pr) powr (1 / (1 - prop_n pr))"

text \<open>
  The code computes the formula in doubles. A product or quotient that overflows becomes
  an infinity, one that underflows becomes 0, and what follows is no longer the
  formula: a division by such a 0 raises. \<open>representable v\<close> keeps \<open>v\<close> clear of both:
  it is 0, or of a magnitude from the least normal double up to \<open>2 ^ 1023\<close>.
  \<open>idealPressureSteps\<close> lists the values of the sum, the products and the quotients
  of \<^verbatim>\<open>calcKN\<close> and of lines 75 to 78 of \<^verbatim>\<open>calcIdealPressure\<close>, over the real
  numbers.
\<close>

definition representable :: "real \<Rightarrow> bool" where
  "representable v = (v = 0 \<or> (2 powr (- 1022) \<le> \<bar>v\<bar> \<and> \<bar>v\<bar> \<le> 2 ^ 1023))"

definition idealPressureSteps ::
  "'g collab \<Rightarrow> 'g motor \<Rightarrow> propellant \<Rightarrow> real list \<Rightarrow> real option \<Rightarrow> real \<Rightarrow> real list" where
  "idealPressureSteps E mot pr r knOpt webThres =
     (let k = prop_k pr; t = prop_t pr; m = prop_m pr; p = prop_density pr; a = prop_a pr;
          n = prop_n pr;
          kn = (case knOpt of None \<Rightarrow> specKN E mot r webThres | Some v \<Rightarrow> v)
      in (case knOpt of
            None \<Rightarrow> [sum_list (map (\<lambda>(gr, reg). getSurfaceAreaAtRegression E gr reg
                                            * intOfBool (isWebLeft E gr reg webThres))
                              (zip (grains mot) r))]
          | Some v \<Rightarrow> [])
         @ [kn, kn * p, kn * p * a, 1 / (1 - n), 8314 / m, 8314 / m * t, k / (8314 / m * t),
            2 / (k + 1), (k + 1) / (k - 1), (2 / (k + 1)) powr ((k + 1) / (k - 1)),
            k / (8314 / m * t) * (2 / (k + 1)) powr ((k + 1) / (k - 1)),
            kn * p * a / specD pr])"

text \<open>
  \<open>swept \<dots> g r0 m0 r1 m1\<close>: what one pass of the sweep makes of the regression \<open>r0\<close>
  and the mass entry \<open>m0\<close> of grain \<open>g\<close>.
\<close>

definition swept ::
  "'g collab \<Rightarrow> simulationResult \<Rightarrow> real \<Rightarrow> real \<Rightarrow> real \<Rightarrow> real \<Rightarrow> real
     \<Rightarrow> 'g \<Rightarrow> real \<Rightarrow> real \<Rightarrow> real \<Rightarrow> real \<Rightarrow> bool" where
  "swept E sr ts a n \<rho> thr g r0 m0 r1 m1 =
     (if thr < getWebLeft E g r0 then
        (\<exists>pLast pw. getLast (ch_pressure sr) = Inr pLast \<and> pypow pLast n = Inr pw
            \<and> r1 = r0 + ts * a * pw \<and> m1 = getVolumeAtRegression E g r0 * \<rho>)
      else r1 = r0 \<and> m1 = m0)"

text \<open>
  A grain whose volume is not negative and does not grow as it regresses, as long as it
  has web left beyond the threshold \<open>thr\<close>, and whose volume before it burns is not
  negative. Nothing is asked of the volume at a regression past burnout.
\<close>

definition physicalVolume :: "'g collab \<Rightarrow> real \<Rightarrow> 'g \<Rightarrow> bool" where
  "physicalVolume E thr g =
     (0 \<le> getVolumeAtRegression E g 0
      \<and> (\<forall>r. thr < getWebLeft E g r \<longrightarrow> 0 \<le> getVolumeAtRegression E g r)
      \<and> (\<forall>r s. r \<le> s \<and> thr < getWebLeft E g r \<and> thr < getWebLeft E g s
             \<longrightarrow> getVolumeAtRegression E g s \<le> getVolumeAtRegression E g r))"

text \<open>The total mass does not grow from one sample of the mass channel to the next.\<close>

definition massOrdered :: "real list list \<Rightarrow> bool" where
  "massOrdered ms = successively (\<lambda>m m'. sum_list m' \<le> sum_list m) ms"

text \<open>
  What holds of the state at every test of the loop condition, for a motor \<open>mot\<close> with
  its grains set up and propellant \<open>pr\<close>: the regression and the last mass sample have
  one entry per grain; no entry of the last mass sample is negative, and that of a grain
  with web left is at least the mass of the grain at its regression; a power of the last
  pressure under the burn-rate exponent is not negative; and the mass channel is ordered.
\<close>

definition burnInvariant :: "'g collab \<Rightarrow> 'g motor \<Rightarrow> propellant \<Rightarrow> 's simState \<Rightarrow> bool" where
  "burnInvariant E mot pr st =
     (let sr = st_simRes st; N = length (grains mot) in
      length (st_reg st) = N \<and> ch_mass sr \<noteq> [] \<and> length (last (ch_mass sr)) = N
      \<and> (\<forall>i < N. 0 \<le> last (ch_mass sr) ! i
            \<and> (burnoutWebThres (config mot) < getWebLeft E (grains mot ! i) (st_reg st ! i)
                 \<longrightarrow> getVolumeAtRegression E (grains mot ! i) (st_reg st ! i) * prop_density pr
                      \<le> last (ch_mass sr) ! i))
      \<and> ch_pressure sr \<noteq> []
      \<and> (\<forall>pw. pypow (last (ch_pressure sr)) (prop_n pr) = Inr pw \<longrightarrow> 0 \<le> pw)
      \<and> massOrdered (ch_mass sr))"

section \<open>Motors to run\<close>

text \<open>
  A grain variant to run the definitions on: a slab of constant burning area that burns
  through its web. Its exit-pressure solver always answers 0.
\<close>

record slab =
  web :: real
  area :: real
  port :: "real option"
  endBurner :: bool

definition slabCollab :: "slab collab" where
  "slabCollab =
     \<lparr>isEndBurningGrain = endBurner,
      getGeometryErrors = (\<lambda>g. []),
      simulationSetup = (\<lambda>cfg g. g),
      getSurfaceAreaAtRegression = (\<lambda>g r. area g),
      isWebLeft = (\<lambda>g r thr. web g - r > thr),
      getWebLeft = (\<lambda>g r. web g - r),
      getVolumeAtRegression = (\<lambda>g r. area g * max 0 (web g - r)),
      getPortArea = (\<lambda>g r. port g),
      getPeakMassFlux_grain = (\<lambda>g mf dt r dr density. mf + area g * dr * density / dt),
      nozzleGeometryErrors = (\<lambda>nz. []),
      getExitPressure = (\<lambda>nz k p. Inr (Some 0)),
      round3 = (\<lambda>x. x),
      strFloat = (\<lambda>x. ''x'')\<rparr>"

text \<open>The same collaborators with a solver that answers NaN, and with one that raises.\<close>

definition nanCollab :: "slab collab" where
  "nanCollab = slabCollab\<lparr>getExitPressure := (\<lambda>nz k p. Inr None)\<rparr>"

definition failingCollab :: "slab collab" where
  "failingCollab = slabCollab\<lparr>getExitPressure := (\<lambda>nz k p. Inl ZeroDivisionError)\<rparr>"

definition demoConfig :: MotorConfig where
  "demoConfig =
     \<lparr>maxPressure = 10, maxMassFlux = 10, minPortThroat = 2, burnoutWebThres = 1 / 1000,
      burnoutThrustThres = 1, timestep = 1 / 10, ambPressure = 1, mapDim = 250\<rparr>"

definition demoPropellant :: propellant where
  "demoPropellant =
     \<lparr>prop_k = 3, prop_t = 3, prop_m = 8314, prop_density = 1, prop_a = 1, prop_n = 0\<rparr>"

definition demoNozzle :: nozzle where
  "demoNozzle = \<lparr>throat = 2, exit = 2, efficiency = 1\<rparr>"

definition demoGrain :: slab where
  "demoGrain = \<lparr>web = 1 / 4, area = pi, port = Some pi, endBurner = False\<rparr>"

definition demoMotor :: "slab motor" where
  "demoMotor =
     \<lparr>grains = [demoGrain], propellant = Some demoPropellant, nozzle = demoNozzle,
      config = demoConfig\<rparr>"

text \<open>A freshly constructed motor: no grain, no propellant.\<close>

definition bareMotor :: "slab motor" where
  "bareMotor = \<lparr>grains = [], propellant = None, nozzle = demoNozzle, config = demoConfig\<rparr>"

definition noGrainMotor :: "slab motor" where
  "noGrainMotor =
     \<lparr>grains = [], propellant = Some demoPropellant, nozzle = demoNozzle, config = demoConfig\<rparr>"

text \<open>No callback; where there is none, its state is the unit value.\<close>

definition noCallback :: "(unit \<Rightarrow> real \<Rightarrow> bool \<times> unit) option" where
  "noCallback = None"

text \<open>A callback that counts its invocations and asks to cancel at the second.\<close>

definition cancelAtSecond :: "nat \<Rightarrow> real \<Rightarrow> bool \<times> nat" where
  "cancelAtSecond c pv = (c = 1, c + 1)"

text \<open>
  The run of the demo motor under that callback: the result after the two initial
  samples, after the first step and after the second, where the run is cancelled, and
  the states in which the loop condition is tested.
\<close>

definition demoSeeded :: simulationResult where
  "demoSeeded =
     \<lparr>ch_time = [0, 1 / 10], ch_kn = [0, 1], ch_pressure = [0, 2], ch_force = [0, 2 * pi],
      ch_mass = [[pi / 4], [pi / 4]], ch_massFlow = [[0], [0]], ch_massFlux = [[0], [0]],
      success = False, alerts = [portThroatAlert slabCollab 1 2]\<rparr>"

definition demoStep1 :: simulationResult where
  "demoStep1 = appended demoSeeded (1 / 5) 1 2 (2 * pi) [pi / 4] [0] [pi]"

definition demoStep2 :: simulationResult where
  "demoStep2 = appended demoStep1 (3 / 10) 1 2 (2 * pi) [3 * pi / 20] [pi] [pi]"

definition demoStart :: "nat simState" where
  "demoStart = \<lparr>st_simRes = demoSeeded, st_reg = [0], st_cb = 0\<rparr>"

definition demoMid :: "nat simState" where
  "demoMid = \<lparr>st_simRes = demoStep1, st_reg = [1 / 10], st_cb = 1\<rparr>"

text \<open>
  A motor whose single grain burns through its web in the first step, so that the thrust
  falls to 0: the result after the two initial samples, and the states in which the loop
  condition is tested.
\<close>

definition boosterGrain :: slab where
  "boosterGrain = \<lparr>web = 1 / 20, area = 6 * pi, port = None, endBurner = False\<rparr>"

definition flashMotor :: "slab motor" where
  "flashMotor =
     \<lparr>grains = [boosterGrain], propellant = Some demoPropellant, nozzle = demoNozzle,
      config = demoConfig\<rparr>"

definition flashSeeded :: simulationResult where
  "flashSeeded =
     \<lparr>ch_time = [0, 1 / 10], ch_kn = [0, 6], ch_pressure = [0, 12], ch_force = [0, 17 * pi],
      ch_mass = [[3 * pi / 10], [3 * pi / 10]], ch_massFlow = [[0], [0]],
      ch_massFlux = [[0], [0]], success = False, alerts = []\<rparr>"

definition flashStart :: "unit simState" where
  "flashStart = \<lparr>st_simRes = flashSeeded, st_reg = [0], st_cb = ()\<rparr>"

definition flashEnd :: "unit simState" where
  "flashEnd =
     \<lparr>st_simRes = appended flashSeeded (1 / 5) 0 0 0 [3 * pi / 10] [0] [6 * pi],
      st_reg = [1 / 10], st_cb = ()\<rparr>"

text \<open>
  Synthetic force channels at the boundary of the loop condition. In the first the
  threshold is the double written \<^verbatim>\<open>0.23\<close>, the peak is 25 and the last sample is the
  double written \<^verbatim>\<open>0.0575\<close>. In the second the threshold is 1 (that of the demo
  motor), the peak is 1 and the last sample is the double written \<^verbatim>\<open>0.01\<close>.
\<close>

definition boundaryMotor :: "slab motor" where
  "boundaryMotor =
     demoMotor\<lparr>config := demoConfig\<lparr>burnoutThrustThres := roundDouble (23 / 100)\<rparr>\<rparr>"

definition boundaryResult :: simulationResult where
  "boundaryResult = newSimulationResult\<lparr>ch_force := [0, 25, roundDouble (575 / 10000)]\<rparr>"

definition aboveResult :: simulationResult where
  "aboveResult = newSimulationResult\<lparr>ch_force := [0, 1, roundDouble (1 / 100)]\<rparr>"

text \<open>
  The demo motor with a burn-rate exponent of 1, and with a burn-rate coefficient and
  exponent under which the ideal pressure is beyond the doubles.
\<close>

definition unitExponentMotor :: "slab motor" where
  "unitExponentMotor = demoMotor\<lparr>propellant := Some (demoPropellant\<lparr>prop_n := 1\<rparr>)\<rparr>"

definition steepPropellant :: propellant where
  "steepPropellant = demoPropellant\<lparr>prop_a := 1024, prop_n := 99 / 100\<rparr>"

definition steepMotor :: "slab motor" where
  "steepMotor = demoMotor\<lparr>propellant := Some steepPropellant\<rparr>"

text \<open>
  The demo motor with a negative burn-rate coefficient, and its run under the callback
  that cancels at the second invocation.
\<close>

definition retroPropellant :: propellant where
  "retroPropellant = demoPropellant\<lparr>prop_a := - 1, prop_n := 1 / 2\<rparr>"

definition retroMotor :: "slab motor" where
  "retroMotor = demoMotor\<lparr>propellant := Some retroPropellant\<rparr>"

definition retroSeeded :: simulationResult where
  "retroSeeded =
     \<lparr>ch_time = [0, 1 / 10], ch_kn = [0, 1], ch_pressure = [0, 4], ch_force = [0, 5 * pi],
      ch_mass = [[pi / 4], [pi / 4]], ch_massFlow = [[0], [0]], ch_massFlux = [[0], [0]],
      success = False, alerts = [portThroatAlert slabCollab 1 2]\<rparr>"

definition retroStep1 :: simulationResult where
  "retroStep1 = appended retroSeeded (1 / 5) 1 4 (5 * pi) [pi / 4] [0] [- (2 * pi)]"

definition retroStep2 :: simulationResult where
  "retroStep2 =
     appended retroStep1 (3 / 10) 1 4 (5 * pi) [9 * pi / 20] [- (2 * pi)] [- (2 * pi)]"

definition retroStart :: "nat simState" where
  "retroStart = \<lparr>st_simRes = retroSeeded, st_reg = [0], st_cb = 0\<rparr>"

definition retroMid :: "nat simState" where
  "retroMid = \<lparr>st_simRes = retroStep1, st_reg = [- (1 / 5)], st_cb = 1\<rparr>"

text \<open>
  The collaborators of the slab with a volume that is linear in the regression, also
  past burnout, where it turns negative.
\<close>

definition linearCollab :: "slab collab" where
  "linearCollab = slabCollab\<lparr>getVolumeAtRegression := (\<lambda>g r. area g * (web g - r))\<rparr>"

text \<open>Property maps for the demo motor: the values of a collection, in a fixed order.\<close>

definition slabIO :: "(slab, real list) propertyIO" where
  "slabIO =
     \<lparr>nozzleGetProperties = (\<lambda>nz. [throat nz, exit nz, efficiency nz]),
      nozzleSetProperties = (\<lambda>p nz. case p of
          [a, b, c] \<Rightarrow> \<lparr>throat = a, exit = b, efficiency = c\<rparr> | _ \<Rightarrow> nz),
      propellantGetProperties = (\<lambda>pr. [prop_k pr, prop_t pr, prop_m pr, prop_density pr,
                                        prop_a pr, prop_n pr]),
      newPropellant = (\<lambda>p. \<lparr>prop_k = p ! 0, prop_t = p ! 1, prop_m = p ! 2,
                              prop_density = p ! 3, prop_a = p ! 4, prop_n = p ! 5\<rparr>),
      geomName = (\<lambda>g. if endBurner g then ''End Burner'' else ''Slab''),
      grainGetProperties = (\<lambda>g. [web g, area g] @ (case port g of None \<Rightarrow> [] | Some q \<Rightarrow> [q])),
      grainSetProperties = (\<lambda>p g. g\<lparr>web := p ! 0, area := p ! 1,
                                      port := (if length p = 3 then Some (p ! 2) else None)\<rparr>),
      grainTypes = (\<lambda>name.
          if name = ''End Burner'' then Some \<lparr>web = 0, area = 0, port = None, endBurner = True\<rparr>
          else if name = ''Slab'' then Some \<lparr>web = 0, area = 0, port = None, endBurner = False\<rparr>
          else None),
      configGetProperties = (\<lambda>c. [maxPressure c, maxMassFlux c, minPortThroat c,
                                    burnoutWebThres c, burnoutThrustThres c, timestep c,
                                    ambPressure c, of_int (mapDim c)]),
      configSetProperties = (\<lambda>p c. \<lparr>maxPressure = p ! 0, maxMassFlux = p ! 1,
                                      minPortThroat = p ! 2, burnoutWebThres = p ! 3,
                                      burnoutThrustThres = p ! 4, timestep = p ! 5,
                                      ambPressure = p ! 6, mapDim = \<lfloor>p ! 7\<rfloor>\<rparr>)\<rparr>"

section \<open>Proofs\<close>

subsection \<open>The error monad\<close>

lemma bindE_Inl [simp]: "bindE (Inl e) f = Inl e"
  by (simp add: bindE_def)

lemma bindE_Inr [simp]: "bindE (Inr x) f = f x"
  by (simp add: bindE_def)

lemma bindE_eq_Inr: "bindE m f = Inr y \<longleftrightarrow> (\<exists>x. m = Inr x \<and> f x = Inr y)"
  by (cases m) simp_all

subsection \<open>Doubles\<close>

lemma not_overflows: "\<bar>v\<bar> \<le> 2 ^ 1000 \<Longrightarrow> \<not> overflows v"
proof -
  have "(2::real) ^ 1000 < overflowThreshold"
    unfolding overflowThreshold_def by simp
  then show "\<bar>v\<bar> \<le> 2 ^ 1000 \<Longrightarrow> \<not> overflows v"
    by (simp add: overflows_def)
qed

lemma not_overflows_top: "\<bar>v\<bar> \<le> 2 ^ 1023 \<Longrightarrow> \<not> overflows v"
proof -
  have "(2::real) ^ 1023 < overflowThreshold"
    unfolding overflowThreshold_def by simp
  then show "\<bar>v\<bar> \<le> 2 ^ 1023 \<Longrightarrow> \<not> overflows v"
    by (simp add: overflows_def)
qed

lemma sqrt_in_range:
  assumes "0 \<le> x" "x \<le> 2 ^ 1023"
  shows "\<bar>sqrt x\<bar> \<le> 2 ^ 1023"
proof -
  have nn: "0 \<le> sqrt x" using assms(1) by simp
  have "sqrt x \<le> 2 ^ 1023"
  proof (cases "x \<le> 1")
    case True
    then have "sqrt x \<le> 1" by simp
    also have "(1::real) \<le> 2 ^ 1023" by (rule one_le_power) simp
    finally show ?thesis .
  next
    case False
    then have "1 \<le> x" by simp
    then have "x * 1 \<le> x * x" by (intro mult_left_mono) simp_all
    then have "x \<le> x\<^sup>2" by (simp add: power2_eq_square)
    then have "sqrt x \<le> sqrt (x\<^sup>2)" by (simp only: real_sqrt_le_iff)
    also have "\<dots> = x" using assms(1) by simp
    finally have "sqrt x \<le> x" .
    then show ?thesis using assms(2) by (rule order_trans)
  qed
  with nn show ?thesis by (simp only: abs_of_nonneg)
qed

lemma not_overflows_small [simp]: "\<bar>v\<bar> \<le> 1000 \<Longrightarrow> overflows v = False"
proof -
  assume "\<bar>v\<bar> \<le> 1000"
  moreover have "(1000::real) \<le> 2 ^ 1000" by simp
  ultimately have "\<bar>v\<bar> \<le> 2 ^ 1000" by (rule order_trans)
  then show ?thesis by (simp add: not_overflows)
qed

lemma binade_eq:
  assumes "2 powr (of_int e) \<le> \<bar>x\<bar>" "\<bar>x\<bar> < 2 powr (of_int e + 1)" "- 1022 \<le> e"
  shows "binade x = e"
proof -
  have "0 < \<bar>x\<bar>" using assms(1) powr_gt_zero[of 2 "of_int e"] by linarith
  then have "\<lfloor>log 2 \<bar>x\<bar>\<rfloor> = e"
    using assms(1,2) by (simp add: floor_log_eq_powr_iff)
  with assms(3) show ?thesis by (simp add: binade_def)
qed

lemma roundDouble_eq:
  assumes "2 powr (of_int e) \<le> \<bar>x\<bar>" "\<bar>x\<bar> < 2 powr (of_int e + 1)" "- 1022 \<le> e"
  shows "roundDouble x = of_int (roundHalfEven (x / 2 powr (of_int e - 52))) * 2 powr (of_int e - 52)"
proof -
  have "x \<noteq> 0" using assms(1) powr_gt_zero[of 2 "of_int e"] by auto
  then show ?thesis
    by (simp add: roundDouble_def ulp_def binade_eq[OF assms])
qed

lemma lit001_value: "lit001 = 5764607523034235 / 2 ^ 59"
  unfolding lit001_def
  by (subst roundDouble_eq[where e = "- 7"]) (simp_all add: roundHalfEven_def powr_minus_divide)

lemma roundDouble_lit001: "roundDouble lit001 = lit001"
  unfolding lit001_value
  by (subst roundDouble_eq[where e = "- 7"]) (simp_all add: roundHalfEven_def powr_minus_divide)

lemma roundHalfEven_le: "of_int (roundHalfEven y) \<le> y + 1 / 2"
  unfolding roundHalfEven_def Let_def by (simp; linarith)

lemma roundHalfEven_nonneg: "0 \<le> y \<Longrightarrow> 0 \<le> roundHalfEven y"
  unfolding roundHalfEven_def Let_def by (simp; linarith)

lemma roundDouble_nonneg: "0 \<le> x \<Longrightarrow> 0 \<le> roundDouble x"
  by (simp add: roundDouble_def ulp_def roundHalfEven_nonneg)

lemma roundDouble_le_twice:
  assumes "2 powr (- 1022) \<le> x"
  shows "roundDouble x \<le> 2 * x"
proof -
  have pos: "0 < x" using assms powr_gt_zero[of 2 "- 1022"] by linarith
  define e where "e = \<lfloor>log 2 x\<rfloor>"
  have "- 1022 \<le> log 2 x"
    using assms pos by (simp add: le_log_iff)
  then have e: "- 1022 \<le> e" unfolding e_def by linarith
  have b: "binade x = e" using pos e by (simp add: binade_def e_def)
  have le: "2 powr (of_int e) \<le> x"
    using pos unfolding e_def by (simp add: powr_le_iff)
  define u where "u = 2 powr (of_int e - 52 :: real)"
  have u: "0 < u" by (simp add: u_def)
  have "u * 2 ^ 52 = 2 powr (of_int e)"
    unfolding u_def by (simp add: powr_diff)
  with le have "u * 2 ^ 52 \<le> x" by simp
  then have big: "2 ^ 52 \<le> x / u" using u by (simp add: pos_le_divide_eq mult.commute)
  have "of_int (roundHalfEven (x / u)) \<le> x / u + 1 / 2" by (rule roundHalfEven_le)
  also have "\<dots> \<le> 2 * (x / u)" using big by simp
  finally have "of_int (roundHalfEven (x / u)) * u \<le> 2 * (x / u) * u"
    using u by (simp only: mult_le_cancel_right_pos)
  also have "\<dots> = 2 * x" using u by simp
  finally show ?thesis using pos by (simp add: roundDouble_def ulp_def b u_def)
qed

lemma thrustBar_one:
  assumes "\<bar>M\<bar> \<le> 2 ^ 1000"
  shows "thrustBar 1 M = Finite (roundDouble (lit001 * M))"
proof -
  have "\<bar>lit001\<bar> \<le> 1" by (simp add: lit001_value)
  then have 1: "\<not> overflows lit001" by (intro not_overflows) simp
  have "\<bar>lit001 * M\<bar> \<le> 1 * 2 ^ 1000"
    unfolding abs_mult using \<open>\<bar>lit001\<bar> \<le> 1\<close> assms by (intro mult_mono) simp_all
  then have 2: "\<not> overflows (lit001 * M)" by (intro not_overflows) simp
  show ?thesis by (simp add: thrustBar_def 1 2 roundDouble_lit001)
qed

lemma exceeds_bar_one:
  assumes "1 \<le> M" "M \<le> 2 ^ 1000"
  shows "fgreater M (thrustBar 1 M)"
proof -
  have l: "1 / 128 \<le> lit001" "lit001 \<le> 1 / 4" by (simp_all add: lit001_value)
  have "2 powr (- 1022) \<le> (1 / 128 :: real) * 1" by (simp add: powr_minus_divide)
  also have "\<dots> \<le> lit001 * M" using l(1) assms(1) by (intro mult_mono) simp_all
  finally have "roundDouble (lit001 * M) \<le> 2 * (lit001 * M)" by (rule roundDouble_le_twice)
  also have "\<dots> \<le> 2 * (1 / 4 * M)" using l(2) assms(1) by (intro mult_left_mono mult_right_mono) simp_all
  also have "\<dots> < M" using assms(1) by simp
  finally show ?thesis using assms by (simp add: thrustBar_one)
qed

lemma zero_below_bar_one:
  assumes "0 \<le> M" "M \<le> 2 ^ 1000"
  shows "\<not> fgreater 0 (thrustBar 1 M)"
proof -
  have "0 \<le> lit001" by (simp add: lit001_value)
  with assms(1) have "0 \<le> lit001 * M" by simp
  then have "0 \<le> roundDouble (lit001 * M)" by (rule roundDouble_nonneg)
  then show ?thesis using assms by (simp add: thrustBar_one)
qed

subsection \<open>Validation\<close>

lemma foldl_addAlert:
  "foldl (\<lambda>sr al. addAlert al sr) sr als = sr\<lparr>alerts := alerts sr @ als\<rparr>"
  by (induction als arbitrary: sr) (simp_all add: addAlert_def)

lemma validate_eq: "validate E mot = newSimulationResult\<lparr>alerts := validationAlerts E mot\<rparr>"
  by (simp add: validate_def foldl_addAlert newSimulationResult_def)

lemma validate_fields [simp]:
  "alerts (validate E mot) = validationAlerts E mot"
  "success (validate E mot) = False"
  "ch_time (validate E mot) = []"
  "ch_kn (validate E mot) = []"
  "ch_pressure (validate E mot) = []"
  "ch_force (validate E mot) = []"
  "ch_mass (validate E mot) = []"
  "ch_massFlow (validate E mot) = []"
  "ch_massFlux (validate E mot) = []"
  by (simp_all add: validate_eq newSimulationResult_def)

lemma runSimulation_rejected:
  "getAlertsByLevel ERROR (validate E mot) \<noteq> []
   \<Longrightarrow> runSimulation E mot callback s0 = Some (Inr (validate E mot))"
  by (simp add: runSimulation_def Let_def)

lemma validationAlerts_noGrains:
  "grains mot = [] \<Longrightarrow>
   validationAlerts E mot =
     noGrainsAlert # nozzleGeometryErrors E (nozzle mot)
       @ (if propellant mot = None then [noPropellantAlert] else [])"
  by (simp add: validationAlerts_def)

lemma level_noGrainsAlert [simp]: "level noGrainsAlert = ERROR"
  by (simp add: noGrainsAlert_def)

lemma level_noPropellantAlert [simp]: "level noPropellantAlert = ERROR"
  by (simp add: noPropellantAlert_def)

subsection \<open>One pass through the loop body\<close>

lemma getLast_snoc [simp]: "getLast (xs @ [x]) = Inr x"
  by (simp add: getLast_def)

lemma burnStep_Inr:
  assumes "burnStep E mot callback ballA ballN density st = Inr fl"
  obtains v kn pres f tLast where
    "sweep E mot (st_simRes st) ballA ballN density (st_reg st) = Inr v"
    "calcKN E mot (perGrainReg v) (burnoutWebThres (config mot)) = Inr kn"
    "calcIdealPressure E mot (perGrainReg v) (Some kn) (burnoutWebThres (config mot)) = Inr pres"
    "calcForce E mot (perGrainReg v) (Some pres) (ambPressure (config mot))
       (burnoutWebThres (config mot)) = Inr f"
    "getLast (ch_time (st_simRes st)) = Inr tLast"
    "flowResult fl = appended (st_simRes st) (tLast + timestep (config mot)) kn pres f
                       (perGrainMass v) (perGrainMassFlow v) (perGrainMassFlux v)"
    "\<And>st'. fl = Continue st' \<Longrightarrow> st_reg st' = perGrainReg v"
  using assms
  unfolding burnStep_def Let_def
  by (auto simp: bindE_eq_Inr flowResult_def appended_def getLast_def
           split: option.splits prod.splits if_splits)

subsection \<open>The loop, unrolled\<close>

lemma stateAfter_Suc_front:
  assumes "loopCondition mot (st_simRes st) = Inr True"
      and "burnStep E mot callback ballA ballN density st = Inr (Continue st1)"
  shows "stateAfter E mot callback ballA ballN density (Suc k) st
         = stateAfter E mot callback ballA ballN density k st1"
proof (induction k)
  case 0
  show ?case using assms by simp
next
  case (Suc k)
  show ?case
    by (subst stateAfter.simps(2)) (simp only: Suc.IH, simp)
qed

lemma stateAfter_SucE:
  assumes "stateAfter E mot callback ballA ballN density (Suc k) st = Some st2"
  obtains st1 where
    "stateAfter E mot callback ballA ballN density k st = Some st1"
    "loopCondition mot (st_simRes st1) = Inr True"
    "burnStep E mot callback ballA ballN density st1 = Inr (Continue st2)"
  using assms
  by (auto split: option.splits sum.splits bool.splits flow.splits)

lemma burnLoop_unroll:
  assumes "stateAfter E mot callback ballA ballN density k st0 = Some st"
  shows "burnLoop E mot callback ballA ballN density st0
         = burnLoop E mot callback ballA ballN density st"
  using assms
proof (induction k arbitrary: st)
  case 0
  then show ?case by simp
next
  case (Suc k)
  from Suc.prems obtain st1 where
    1: "stateAfter E mot callback ballA ballN density k st0 = Some st1"
    and 2: "loopCondition mot (st_simRes st1) = Inr True"
    and 3: "burnStep E mot callback ballA ballN density st1 = Inr (Continue st)"
    by (rule stateAfter_SucE)
  have "burnLoop E mot callback ballA ballN density st0
        = burnLoop E mot callback ballA ballN density st1"
    using 1 by (rule Suc.IH)
  also have "\<dots> = burnLoop E mot callback ballA ballN density st"
    by (subst burnLoop.simps) (simp add: 2 3)
  finally show ?case .
qed

lemma lastPass_stop:
  "loopCondition mot (st_simRes st) = Inl e
   \<Longrightarrow> lastPass E mot callback ballA ballN density st (Inl e)"
  "loopCondition mot (st_simRes st) = Inr False
   \<Longrightarrow> lastPass E mot callback ballA ballN density st (Inr (Continue st))"
  "loopCondition mot (st_simRes st) = Inr True
   \<Longrightarrow> burnStep E mot callback ballA ballN density st = Inl e
   \<Longrightarrow> lastPass E mot callback ballA ballN density st (Inl e)"
  "loopCondition mot (st_simRes st) = Inr True
   \<Longrightarrow> burnStep E mot callback ballA ballN density st = Inr (Return res)
   \<Longrightarrow> lastPass E mot callback ballA ballN density st (Inr (Return res))"
  by (simp_all add: lastPass_def)

lemma endsAt_now:
  "lastPass E mot callback ballA ballN density st y
   \<Longrightarrow> endsAt E mot callback ballA ballN density st y"
  unfolding endsAt_def
  by (rule exI[of _ 0], rule exI[of _ st]) simp

lemma endsAt_later:
  assumes c: "loopCondition mot (st_simRes st) = Inr True"
      and b: "burnStep E mot callback ballA ballN density st = Inr (Continue st1)"
      and e: "endsAt E mot callback ballA ballN density st1 y"
  shows "endsAt E mot callback ballA ballN density st y"
proof -
  from e obtain k st' where
    k: "stateAfter E mot callback ballA ballN density k st1 = Some st'"
    and l: "lastPass E mot callback ballA ballN density st' y"
    unfolding endsAt_def by (elim exE conjE)
  have "stateAfter E mot callback ballA ballN density (Suc k) st = Some st'"
    by (simp only: stateAfter_Suc_front[OF c b, of k] k)
  with l show ?thesis unfolding endsAt_def by (intro exI conjI)
qed

lemma burnLoop_Some:
  "burnLoop E mot callback ballA ballN density st = Some y
   \<Longrightarrow> endsAt E mot callback ballA ballN density st y"
proof (rule burnLoop.raw_induct[where P = endsAt], goal_cases)
  case (1 loop E mot callback ballA ballN density st y)
  note IH = 1(2) and body = 1(3)
  show ?case
  proof (cases "loopCondition mot (st_simRes st)")
    case (Inl e)
    with body have "y = Inl e" by simp
    with Inl show ?thesis by (intro endsAt_now) (simp add: lastPass_stop)
  next
    case (Inr go)
    show ?thesis
    proof (cases go)
      case False
      with Inr body have "y = Inr (Continue st)" by simp
      with Inr False show ?thesis by (intro endsAt_now) (simp add: lastPass_stop)
    next
      case True
      show ?thesis
      proof (cases "burnStep E mot callback ballA ballN density st")
        case (Inl e)
        with Inr True body have "y = Inl e" by simp
        with Inr True Inl show ?thesis by (intro endsAt_now) (simp add: lastPass_stop)
      next
        case step: (Inr fl)
        show ?thesis
        proof (cases fl)
          case (Return res)
          with step Inr True body have "y = Inr (Return res)" by simp
          with Inr True step Return show ?thesis
            by (intro endsAt_now) (simp add: lastPass_stop)
        next
          case (Continue st1)
          with step Inr True body have "loop E mot callback ballA ballN density st1 = Some y"
            by simp
          then have e: "endsAt E mot callback ballA ballN density st1 y" by (rule IH)
          have c: "loopCondition mot (st_simRes st) = Inr True" using Inr True by simp
          have b: "burnStep E mot callback ballA ballN density st = Inr (Continue st1)"
            using step Continue by simp
          from c b e show ?thesis by (rule endsAt_later)
        qed
      qed
    qed
  qed
next
  case 2
  then show ?case .
qed

lemma stateAfter_invariant:
  assumes "stateAfter E mot callback ballA ballN density k st0 = Some st"
      and "I st0"
      and "\<And>s s'. I s \<Longrightarrow> loopCondition mot (st_simRes s) = Inr True
             \<Longrightarrow> burnStep E mot callback ballA ballN density s = Inr (Continue s') \<Longrightarrow> I s'"
  shows "I st"
  using assms(1)
proof (induction k arbitrary: st)
  case 0
  then show ?case using assms(2) by simp
next
  case (Suc k)
  from Suc.prems obtain st1 where
    1: "stateAfter E mot callback ballA ballN density k st0 = Some st1"
    and 2: "loopCondition mot (st_simRes st1) = Inr True"
    and 3: "burnStep E mot callback ballA ballN density st1 = Inr (Continue st)"
    by (rule stateAfter_SucE)
  from Suc.IH[OF 1] 2 3 show ?case by (rule assms(3))
qed

lemma demo_fields [simp]:
  "grains bareMotor = []" "propellant bareMotor = None" "nozzle bareMotor = demoNozzle"
  "grains noGrainMotor = []" "propellant noGrainMotor = Some demoPropellant"
  "nozzle noGrainMotor = demoNozzle"
  "grains demoMotor = [demoGrain]" "propellant demoMotor = Some demoPropellant"
  "nozzle demoMotor = demoNozzle" "config demoMotor = demoConfig"
  by (simp_all add: bareMotor_def noGrainMotor_def demoMotor_def)

lemma slabCollab_nozzle [simp]: "nozzleGeometryErrors slabCollab nz = []"
  by (simp add: slabCollab_def)

subsection \<open>The run, taken apart\<close>

lemma runSimulation_entered:
  assumes "entersLoop E mot s0 pr st0"
  shows "runSimulation E mot callback s0 =
           (case burnLoop E (setupGrains E mot) callback (prop_a pr) (prop_n pr) (prop_density pr) st0 of
              None \<Rightarrow> None
            | Some (Inl e) \<Rightarrow> Some (Inl e)
            | Some (Inr (Return res)) \<Rightarrow> Some (Inr res)
            | Some (Inr (Continue st)) \<Rightarrow> Some (finish (setupGrains E mot) (st_simRes st)))"
  using assms
  by (auto simp: entersLoop_def runSimulation_def Let_def split: sum.splits)

lemma runSimulation_Inr:
  assumes "runSimulation E mot callback s0 = Some (Inr res)"
  obtains
    (rejected) "getAlertsByLevel ERROR (validate E mot) \<noteq> []" "res = validate E mot"
  | (cancelled) pr st0 where "entersLoop E mot s0 pr st0"
      "burnLoop E (setupGrains E mot) callback (prop_a pr) (prop_n pr) (prop_density pr) st0
         = Some (Inr (Return res))"
  | (burnout) pr st0 st where "entersLoop E mot s0 pr st0"
      "burnLoop E (setupGrains E mot) callback (prop_a pr) (prop_n pr) (prop_density pr) st0
         = Some (Inr (Continue st))"
      "finish (setupGrains E mot) (st_simRes st) = Inr res"
proof (cases "getAlertsByLevel ERROR (validate E mot) = []")
  case False
  then have "runSimulation E mot callback s0 = Some (Inr (validate E mot))"
    by (rule runSimulation_rejected)
  with assms False show ?thesis by (intro rejected) simp_all
next
  case True
  with assms obtain pr where pr: "propellant mot = Some pr"
    by (cases "propellant mot") (simp_all add: runSimulation_def Let_def)
  with assms True obtain sr where
    sr: "initialise E (setupGrains E mot) (prop_density pr) (validate E mot) = Inr sr"
    by (cases "initialise E (setupGrains E mot) (prop_density pr) (validate E mot)")
       (simp_all add: runSimulation_def Let_def)
  define st0 where "st0 = \<lparr>st_simRes = sr, st_reg = zeros (setupGrains E mot), st_cb = s0\<rparr>"
  have e: "entersLoop E mot s0 pr st0"
    using True pr sr by (simp add: entersLoop_def st0_def)
  note run = assms[unfolded runSimulation_entered[OF e]]
  show ?thesis
  proof (cases "burnLoop E (setupGrains E mot) callback (prop_a pr) (prop_n pr) (prop_density pr) st0")
    case None
    with run show ?thesis by simp
  next
    case (Some y)
    show ?thesis
    proof (cases y)
      case (Inl err)
      with Some run show ?thesis by simp
    next
      case (Inr fl)
      show ?thesis
      proof (cases fl)
        case (Return r)
        with Some Inr run have "r = res" by simp
        with Some Inr Return e show ?thesis by (intro cancelled) simp_all
      next
        case (Continue st)
        with Some Inr run have "finish (setupGrains E mot) (st_simRes st) = Inr res" by simp
        with Some Inr Continue e show ?thesis by (intro burnout) simp_all
      qed
    qed
  qed
qed

subsection \<open>Channel lengths\<close>

lemma balanced_appended [simp]:
  "balanced (appended sr t kn p f ms flows fluxes) n = (n \<noteq> 0 \<and> balanced sr (n - 1))"
  by (auto simp: balanced_def appended_def)

lemma balanced_addAlert [simp]: "balanced (addAlert al sr) n = balanced sr n"
  by (simp add: balanced_def addAlert_def)

lemma balanced_validate: "balanced (validate E mot) 0"
  by (simp add: balanced_def)

lemma seedSamples_balanced:
  "seedSamples E mot density sr0 = Inr sr \<Longrightarrow> balanced sr0 n \<Longrightarrow> balanced sr (n + 2)"
  by (auto simp: seedSamples_def Let_def bindE_eq_Inr balanced_def)

lemma checkPortThroat_channels:
  "checkPortThroat E mot sr0 = Inr sr \<Longrightarrow> balanced sr n = balanced sr0 n"
  by (auto simp: checkPortThroat_def Let_def bindE_eq_Inr split: option.splits if_splits)

lemma initialise_balanced:
  "initialise E mot density sr0 = Inr sr \<Longrightarrow> balanced sr0 n \<Longrightarrow> balanced sr (n + 2)"
  by (auto simp: initialise_def bindE_eq_Inr checkPortThroat_channels dest: seedSamples_balanced)

lemma entersLoop_balanced: "entersLoop E mot s0 pr st0 \<Longrightarrow> balanced (st_simRes st0) 2"
  using initialise_balanced[of E "setupGrains E mot" "prop_density pr" "validate E mot" _ 0]
  by (auto simp: entersLoop_def balanced_validate numeral_2_eq_2 split: sum.splits)

lemma burnStep_balanced:
  assumes "burnStep E mot callback ballA ballN density st = Inr fl"
      and "balanced (st_simRes st) n"
  shows "balanced (flowResult fl) (Suc n)"
  using assms(1)
proof (rule burnStep_Inr)
  fix v kn pres f tLast
  assume "flowResult fl = appended (st_simRes st) (tLast + timestep (config mot)) kn pres f
                       (perGrainMass v) (perGrainMassFlow v) (perGrainMassFlux v)"
  with assms(2) show ?thesis by simp
qed

lemma stateAfter_balanced:
  assumes "stateAfter E mot callback ballA ballN density k st0 = Some st"
      and "balanced (st_simRes st0) n"
  shows "balanced (st_simRes st) (n + k)"
  using assms
proof (induction k arbitrary: st)
  case 0
  then show ?case by simp
next
  case (Suc k)
  from Suc.prems(1) obtain st1 where
    1: "stateAfter E mot callback ballA ballN density k st0 = Some st1"
    and 3: "burnStep E mot callback ballA ballN density st1 = Inr (Continue st)"
    by (rule stateAfter_SucE)
  from Suc.IH[OF 1 Suc.prems(2)] have "balanced (st_simRes st1) (n + k)" .
  with 3 have "balanced (flowResult (Continue st)) (Suc (n + k))" by (rule burnStep_balanced)
  then show ?case by (simp add: flowResult_def)
qed

lemma finish_Inr:
  assumes "finish mot sr = Inr res"
  obtains als where "res = sr\<lparr>success := True, alerts := alerts sr @ als\<rparr>"
    "\<forall>al \<in> set als. level al = WARNING"
proof -
  from assms obtain peak pmax where
    res: "res = (let sr1 = sr\<lparr>success := True\<rparr>;
                    sr2 = (if peak > maxMassFlux (config mot) then addAlert massFluxAlert sr1 else sr1)
                in if pmax > maxPressure (config mot) then addAlert pressureAlert sr2 else sr2)"
    unfolding finish_def Let_def bindE_eq_Inr by blast
  define als where "als = (if peak > maxMassFlux (config mot) then [massFluxAlert] else [])
                        @ (if pmax > maxPressure (config mot) then [pressureAlert] else [])"
  have "res = sr\<lparr>success := True, alerts := alerts sr @ als\<rparr>"
    unfolding res als_def by (simp add: Let_def addAlert_def)
  moreover have "\<forall>al \<in> set als. level al = WARNING"
    unfolding als_def by (auto simp: massFluxAlert_def pressureAlert_def)
  ultimately show ?thesis by (rule that)
qed

lemma finish_balanced: "finish mot sr = Inr res \<Longrightarrow> balanced res n = balanced sr n"
  by (erule finish_Inr) (simp add: balanced_def)

lemma lastPass_Return:
  "lastPass E mot callback ballA ballN density st (Inr (Return res))
   \<longleftrightarrow> loopCondition mot (st_simRes st) = Inr True
       \<and> burnStep E mot callback ballA ballN density st = Inr (Return res)"
  by (auto simp: lastPass_def split: sum.splits flow.splits)

lemma lastPass_Continue:
  "lastPass E mot callback ballA ballN density st (Inr (Continue st'))
   \<longleftrightarrow> loopCondition mot (st_simRes st) = Inr False \<and> st' = st"
  by (auto simp: lastPass_def split: sum.splits flow.splits)

lemma burnLoop_balanced:
  assumes "burnLoop E mot callback ballA ballN density st0 = Some (Inr fl)"
      and "balanced (st_simRes st0) n"
  shows "\<exists>m. balanced (flowResult fl) m"
proof -
  from burnLoop_Some[OF assms(1)] obtain k st where
    k: "stateAfter E mot callback ballA ballN density k st0 = Some st"
    and l: "lastPass E mot callback ballA ballN density st (Inr fl)"
    unfolding endsAt_def by (elim exE conjE)
  have b: "balanced (st_simRes st) (n + k)" using k assms(2) by (rule stateAfter_balanced)
  show ?thesis
  proof (cases fl)
    case (Return res)
    with l have "burnStep E mot callback ballA ballN density st = Inr fl"
      by (simp add: lastPass_Return)
    from burnStep_balanced[OF this b] show ?thesis by (rule exI)
  next
    case (Continue st')
    with l have "st' = st" by (simp add: lastPass_Continue)
    with b Continue show ?thesis by (auto simp: flowResult_def)
  qed
qed

subsection \<open>The demo motor, evaluated\<close>

lemma slabCollab_simps [simp]:
  "isEndBurningGrain slabCollab g = endBurner g"
  "getGeometryErrors slabCollab g = []"
  "simulationSetup slabCollab cfg g = g"
  "getSurfaceAreaAtRegression slabCollab g r = area g"
  "isWebLeft slabCollab g r thr = (web g - r > thr)"
  "getWebLeft slabCollab g r = web g - r"
  "getVolumeAtRegression slabCollab g r = area g * max 0 (web g - r)"
  "getPortArea slabCollab g r = port g"
  "getPeakMassFlux_grain slabCollab g inflow dt r dr density = inflow + area g * dr * density / dt"
  "getExitPressure slabCollab nz k p = Inr (Some 0)"
  "round3 slabCollab x = x"
  by (simp_all add: slabCollab_def)

lemma demoGrain_simps [simp]:
  "web demoGrain = 1 / 4" "area demoGrain = pi" "port demoGrain = Some pi"
  "endBurner demoGrain = False"
  by (simp_all add: demoGrain_def)

lemma demoConfig_simps [simp]:
  "maxPressure demoConfig = 10" "maxMassFlux demoConfig = 10" "minPortThroat demoConfig = 2"
  "burnoutWebThres demoConfig = 1 / 1000" "burnoutThrustThres demoConfig = 1"
  "timestep demoConfig = 1 / 10" "ambPressure demoConfig = 1"
  by (simp_all add: demoConfig_def)

lemma demoPropellant_simps [simp]:
  "prop_k demoPropellant = 3" "prop_t demoPropellant = 3" "prop_m demoPropellant = 8314"
  "prop_density demoPropellant = 1" "prop_a demoPropellant = 1" "prop_n demoPropellant = 0"
  by (simp_all add: demoPropellant_def)

lemma demoNozzle_areas [simp]:
  "getThroatArea demoNozzle = pi" "getExitArea demoNozzle = pi"
  "circleArea (throat demoNozzle) = pi" "efficiency demoNozzle = 1"
  by (simp_all add: getThroatArea_def getExitArea_def circleArea_def demoNozzle_def)

lemma setupGrains_demo [simp]: "setupGrains slabCollab demoMotor = demoMotor"
  by (simp add: setupGrains_def demoMotor_def)

lemma zeros_demo [simp]: "zeros demoMotor = [0]"
  by (simp add: zeros_def)

lemma validate_demo [simp]: "validate slabCollab demoMotor = newSimulationResult"
  by (simp add: validate_eq validationAlerts_def grainAlerts_def newSimulationResult_def)

lemma half_squared [simp]: "((1 / 2) :: real)\<^sup>2 = 1 / 4"
  by (simp add: power2_eq_square)

lemma powr_quarter_half: "(1 / 4 :: real) powr (1 / 2) = 1 / 2"
proof -
  have "(1 / 4 :: real) powr (1 / 2) = sqrt (1 / 4)" by (simp add: powr_half_sqrt)
  also have "\<dots> = sqrt ((1 / 2)\<^sup>2)" by (simp add: power2_eq_square)
  also have "\<dots> = 1 / 2" by (simp only: real_sqrt_abs)
  finally show ?thesis .
qed

lemma powr_nine_quarters_half: "(9 / 4 :: real) powr (1 / 2) = 3 / 2"
proof -
  have "(9 / 4 :: real) powr (1 / 2) = sqrt (9 / 4)" by (simp add: powr_half_sqrt)
  also have "\<dots> = sqrt ((3 / 2)\<^sup>2)" by (simp add: power2_eq_square)
  also have "\<dots> = 3 / 2" by (simp only: real_sqrt_abs)
  finally show ?thesis .
qed

lemma isIntegral_simps [simp]:
  "\<not> isIntegral (1 / 2)" "isIntegral 2" "isIntegral 1" "\<not> isIntegral (2 / 3)"
  by (simp_all add: isIntegral_def)

lemma demo_calcKN:
  "calcKN slabCollab demoMotor [r] (1 / 1000) = Inr (if r < 249 / 1000 then 1 else 0)"
  by (simp add: calcKN_def intOfBool_def pydiv_def)

lemma demo_pressure:
  "0 \<le> kn \<Longrightarrow> kn \<le> 1 \<Longrightarrow>
   calcIdealPressure slabCollab demoMotor r (Some kn) thr = Inr (2 * kn)"
  by (simp add: calcIdealPressure_def Let_def pydiv_def pypow_def intPower_def powr_quarter_half)

lemma demo_pressure_None:
  "calcIdealPressure slabCollab demoMotor [r] None (1 / 1000)
   = Inr (if r < 249 / 1000 then 2 else 0)"
  by (simp add: calcIdealPressure_def demo_calcKN Let_def pydiv_def pypow_def intPower_def
        powr_quarter_half)

lemma demo_thrust: "thrust slabCollab demoMotor 3 2 1 = Inr (Some (2 * pi))"
  by (simp add: thrust_def Let_def pydiv_def pypow_def np_pow_def np_map_def np_add_def
        intPower_def power2_eq_square powr_nine_quarters_half)

lemma demo_force_2: "calcForce slabCollab demoMotor r (Some 2) 1 thr = Inr (2 * pi)"
  by (simp add: calcForce_def demo_thrust clampForce_def np_isnan_def np_less_def)

lemma demo_force_0: "calcForce slabCollab demoMotor r (Some 0) 1 thr = Inr 0"
  by (simp add: calcForce_def)

lemma demo_force_None: "calcForce slabCollab demoMotor [0] None 1 (1 / 1000) = Inr (2 * pi)"
  by (simp add: calcForce_def demo_pressure_None demo_thrust clampForce_def np_isnan_def
        np_less_def)

lemma demo_seed:
  "seedSamples slabCollab demoMotor 1 newSimulationResult
   = Inr (demoSeeded\<lparr>alerts := []\<rparr>)"
  by (simp add: seedSamples_def Let_def demo_calcKN demo_pressure_None demo_force_None
        newSimulationResult_def demoSeeded_def)

lemma demo_initialise:
  "initialise slabCollab demoMotor 1 newSimulationResult = Inr demoSeeded"
  by (simp add: initialise_def demo_seed checkPortThroat_def getLast_def pydiv_def Let_def
        addAlert_def demoSeeded_def)

lemma demo_sweep:
  assumes "ch_pressure sr \<noteq> []" "last (ch_pressure sr) = 2"
      and "ch_mass sr \<noteq> []" "last (ch_mass sr) = [m]" "r0 < 249 / 1000"
  shows "sweep slabCollab demoMotor sr 1 0 1 [r0]
         = Inr \<lparr>mf = (m - pi * (1 / 4 - r0)) * 10, perGrainMass = [pi * (1 / 4 - r0)],
                perGrainMassFlow = [(m - pi * (1 / 4 - r0)) * 10], perGrainMassFlux = [pi],
                perGrainReg = [r0 + 1 / 10]\<rparr>"
  using assms
  by (simp add: sweep_def sweepGrain_def getItem_def setItem_def getLast_def pypow_def
        pydiv_def Let_def max_def)

lemma demo_progress:
  "progressValue slabCollab demoMotor [r] = Inr (4 * r)"
  by (simp add: progressValue_def pydiv_def getMax_def algebra_simps)

lemma loopCondition_peak:
  assumes "burnoutThrustThres (config mot) = 1" "ch_force sr \<noteq> []"
      and "last (ch_force sr) = M" "Max (set (ch_force sr)) = M" "1 \<le> M" "M \<le> 1000"
  shows "loopCondition mot sr = Inr True"
proof -
  have "(1000::real) \<le> 2 ^ 1000" by simp
  with assms(6) have "M \<le> 2 ^ 1000" by (rule order_trans)
  with assms(5) have "fgreater M (thrustBar 1 M)" by (rule exceeds_bar_one)
  then show ?thesis using assms(1-4) by (simp add: loopCondition_def getLast_def getMax_def)
qed

lemma loopCondition_spent:
  assumes "burnoutThrustThres (config mot) = 1" "ch_force sr \<noteq> []"
      and "last (ch_force sr) = 0" "Max (set (ch_force sr)) = M" "0 \<le> M" "M \<le> 1000"
  shows "loopCondition mot sr = Inr False"
proof -
  have "(1000::real) \<le> 2 ^ 1000" by simp
  with assms(6) have "M \<le> 2 ^ 1000" by (rule order_trans)
  with assms(5) have "\<not> fgreater 0 (thrustBar 1 M)" by (rule zero_below_bar_one)
  then show ?thesis using assms(1-4) by (simp add: loopCondition_def getLast_def getMax_def)
qed

lemma pi_bounds: "1 \<le> 2 * pi" "2 * pi \<le> 1000" "1 \<le> 5 * pi" "5 * pi \<le> 1000"
  "1 \<le> 17 * pi" "17 * pi \<le> 1000"
  using pi_ge_two pi_less_4 by simp_all

lemma demo_loopCondition:
  assumes "ch_force sr \<noteq> []" "last (ch_force sr) = 2 * pi" "Max (set (ch_force sr)) = 2 * pi"
  shows "loopCondition demoMotor sr = Inr True"
  using _ assms pi_bounds(1,2) by (rule loopCondition_peak) simp

lemma demo_burnStep:
  assumes "ch_pressure sr \<noteq> []" "last (ch_pressure sr) = 2"
      and "ch_mass sr \<noteq> []" "last (ch_mass sr) = [m]"
      and "ch_time sr \<noteq> []" "last (ch_time sr) = t" "r0 < 149 / 1000"
  shows "burnStep slabCollab demoMotor (Some cbf) 1 0 1 \<lparr>st_simRes = sr, st_reg = [r0], st_cb = c\<rparr>
         = Inr (let sr' = appended sr (t + 1 / 10) 1 2 (2 * pi) [pi * (1 / 4 - r0)]
                            [(m - pi * (1 / 4 - r0)) * 10] [pi];
                    answer = cbf c (4 * (r0 + 1 / 10))
                in if fst answer then Return sr'
                   else Continue \<lparr>st_simRes = sr', st_reg = [r0 + 1 / 10], st_cb = snd answer\<rparr>)"
  using assms
  by (simp add: burnStep_def demo_sweep demo_calcKN demo_pressure demo_force_2 demo_progress
        getLast_def Let_def appended_def)

subsection \<open>Alerts and the success flag along a run\<close>

lemma appended_alerts [simp]:
  "alerts (appended sr t kn p f ms flows fluxes) = alerts sr"
  "success (appended sr t kn p f ms flows fluxes) = success sr"
  by (simp_all add: appended_def)

lemma seedSamples_alerts:
  "seedSamples E mot density sr0 = Inr sr \<Longrightarrow> alerts sr = alerts sr0 \<and> success sr = success sr0"
  by (auto simp: seedSamples_def Let_def bindE_eq_Inr)

lemma checkPortThroat_alerts:
  assumes "checkPortThroat E mot sr0 = Inr sr"
  shows "success sr = success sr0
       \<and> getAlertsByLevel ERROR sr = getAlertsByLevel ERROR sr0"
  using assms
  by (auto simp: checkPortThroat_def Let_def bindE_eq_Inr getAlertsByLevel_def addAlert_def
        portThroatAlert_def split: option.splits if_splits)

lemma entersLoop_alerts:
  assumes "entersLoop E mot s0 pr st0"
  shows "\<not> success (st_simRes st0) \<and> getAlertsByLevel ERROR (st_simRes st0) = []"
proof -
  from assms obtain sr where
    v: "getAlertsByLevel ERROR (validate E mot) = []"
    and i: "initialise E (setupGrains E mot) (prop_density pr) (validate E mot) = Inr sr"
    and s: "st_simRes st0 = sr"
    by (auto simp: entersLoop_def split: sum.splits)
  from i obtain sr1 where
    1: "seedSamples E (setupGrains E mot) (prop_density pr) (validate E mot) = Inr sr1"
    and 2: "checkPortThroat E (setupGrains E mot) sr1 = Inr sr"
    by (auto simp: initialise_def bindE_eq_Inr)
  from seedSamples_alerts[OF 1] v have "\<not> success sr1 \<and> getAlertsByLevel ERROR sr1 = []"
    by (simp add: getAlertsByLevel_def)
  with checkPortThroat_alerts[OF 2] s show ?thesis by simp
qed

lemma burnStep_alerts:
  assumes "burnStep E mot callback ballA ballN density st = Inr fl"
  shows "alerts (flowResult fl) = alerts (st_simRes st)
       \<and> success (flowResult fl) = success (st_simRes st)"
  using assms by (rule burnStep_Inr) simp

lemma stateAfter_alerts:
  assumes "stateAfter E mot callback ballA ballN density k st0 = Some st"
  shows "alerts (st_simRes st) = alerts (st_simRes st0)
       \<and> success (st_simRes st) = success (st_simRes st0)"
  using assms
proof (induction k arbitrary: st)
  case 0
  then show ?case by simp
next
  case (Suc k)
  from Suc.prems(1) obtain st1 where
    1: "stateAfter E mot callback ballA ballN density k st0 = Some st1"
    and 3: "burnStep E mot callback ballA ballN density st1 = Inr (Continue st)"
    by (rule stateAfter_SucE)
  from burnStep_alerts[OF 3] Suc.IH[OF 1] show ?case by (simp add: flowResult_def)
qed

subsection \<open>Cancellation\<close>

lemma cancelledAt_Some:
  assumes "cancelledAt E mot cbf ballA ballN density k st0 = Some res"
  obtains st where "0 < k"
    "stateAfter E mot (Some cbf) ballA ballN density (k - 1) st0 = Some st"
    "loopCondition mot (st_simRes st) = Inr True"
    "burnStep E mot (Some cbf) ballA ballN density st = Inr (Return res)"
  using assms
  by (auto simp: cancelledAt_def split: if_splits option.splits sum.splits bool.splits flow.splits)

lemma burnLoop_cancelled:
  assumes "cancelledAt E mot cbf ballA ballN density k st0 = Some res"
  shows "burnLoop E mot (Some cbf) ballA ballN density st0 = Some (Inr (Return res))"
  using assms
proof (rule cancelledAt_Some)
  fix st
  assume k: "stateAfter E mot (Some cbf) ballA ballN density (k - 1) st0 = Some st"
    and c: "loopCondition mot (st_simRes st) = Inr True"
    and b: "burnStep E mot (Some cbf) ballA ballN density st = Inr (Return res)"
  have "burnLoop E mot (Some cbf) ballA ballN density st0
        = burnLoop E mot (Some cbf) ballA ballN density st"
    using k by (rule burnLoop_unroll)
  also have "\<dots> = Some (Inr (Return res))"
    by (subst burnLoop.simps) (simp add: c b)
  finally show ?thesis .
qed

lemma newSimulationResult_alerts [simp]: "getAlertsByLevel lv newSimulationResult = []"
  by (simp add: getAlertsByLevel_def newSimulationResult_def)

lemma demo_entersLoop: "entersLoop slabCollab demoMotor 0 demoPropellant demoStart"
  by (simp add: entersLoop_def demo_initialise demoStart_def)

lemma demoSeeded_simps [simp]:
  "ch_time demoSeeded = [0, 1 / 10]" "ch_pressure demoSeeded = [0, 2]"
  "ch_force demoSeeded = [0, 2 * pi]" "ch_mass demoSeeded = [[pi / 4], [pi / 4]]"
  "alerts demoSeeded = [portThroatAlert slabCollab 1 2]" "success demoSeeded = False"
  by (simp_all add: demoSeeded_def)

lemma demo_first_step:
  "burnStep slabCollab demoMotor (Some cancelAtSecond) 1 0 1 demoStart = Inr (Continue demoMid)"
  unfolding demoStart_def demoMid_def
  by (subst demo_burnStep[where m = "pi / 4" and t = "1 / 10"])
     (simp_all add: cancelAtSecond_def demoStep1_def Let_def)

lemma demo_second_step:
  "burnStep slabCollab demoMotor (Some cancelAtSecond) 1 0 1 demoMid = Inr (Return demoStep2)"
  unfolding demoMid_def
  by (subst demo_burnStep[where m = "pi / 4" and t = "1 / 5"])
     (simp_all add: cancelAtSecond_def demoStep1_def demoStep2_def Let_def appended_def)

lemma demo_cond_start: "loopCondition demoMotor (st_simRes demoStart) = Inr True"
  by (rule demo_loopCondition) (simp_all add: demoStart_def)

lemma demo_cond_mid: "loopCondition demoMotor (st_simRes demoMid) = Inr True"
  by (rule demo_loopCondition) (simp_all add: demoMid_def demoStep1_def appended_def)

lemma demo_stateAfter_1:
  "stateAfter slabCollab demoMotor (Some cancelAtSecond) 1 0 1 (Suc 0) demoStart = Some demoMid"
  by (simp add: demo_cond_start demo_first_step)

lemma demo_cancelledAt:
  "cancelledAt slabCollab demoMotor cancelAtSecond 1 0 1 2 demoStart = Some demoStep2"
  unfolding cancelledAt_def
  by (simp add: demo_stateAfter_1 demo_cond_mid demo_second_step del: stateAfter.simps)

subsection \<open>Thrust\<close>

lemma clampForce_nonneg: "0 \<le> clampForce f"
  by (cases f) (simp_all add: clampForce_def np_isnan_def np_less_def)

lemma clampForce_simps:
  "clampForce None = 0"
  "x < 0 \<Longrightarrow> clampForce (Some x) = 0"
  "0 \<le> x \<Longrightarrow> clampForce (Some x) = x"
  by (simp_all add: clampForce_def np_isnan_def np_less_def)

lemma calcForce_zero_pressure:
  "propellant mot \<noteq> None \<Longrightarrow> calcForce E mot r (Some 0) p_a thr = Inr 0"
  by (auto simp: calcForce_def)

lemma calcForce_zero_ideal:
  "calcIdealPressure E mot r None thr = Inr 0 \<Longrightarrow> calcForce E mot r None p_a thr = Inr 0"
  by (cases "propellant mot") (simp_all add: calcForce_def calcIdealPressure_def)

lemma calcForce_nonneg:
  "calcForce E mot r casePressure p_a thr = Inr f \<Longrightarrow> 0 \<le> f"
  by (auto simp: calcForce_def bindE_eq_Inr clampForce_nonneg split: option.splits if_splits)

subsection \<open>KN and the ideal pressure\<close>

lemma indicator_sum:
  "sum_list (map (\<lambda>(gr, reg). f gr reg * intOfBool (P gr reg)) xs)
   = sum_list (map (\<lambda>(gr, reg). f gr reg) (filter (\<lambda>(gr, reg). P gr reg) xs))"
  by (induction xs) (auto simp: intOfBool_def)

lemma calcKN_spec:
  "getThroatArea (nozzle mot) \<noteq> 0 \<Longrightarrow> calcKN E mot r thr = Inr (specKN E mot r thr)"
  by (simp add: calcKN_def specKN_def pydiv_def Let_def indicator_sum)

lemma pypow_pos:
  "0 < x \<Longrightarrow> y \<noteq> 0 \<Longrightarrow> \<not> overflows (x powr y) \<Longrightarrow> pypow x y = Inr (x powr y)"
  by (simp add: pypow_def intPower_def)

lemma pypow_nonneg_pos:
  "0 \<le> x \<Longrightarrow> 0 < y \<Longrightarrow> \<not> overflows (x powr y) \<Longrightarrow> pypow x y = Inr (x powr y)"
  by (simp add: pypow_def intPower_def)

lemma demo_thrust_amb: "thrust slabCollab demoMotor 3 2 p_a = Inr (Some (3 * pi - p_a * pi))"
  by (simp add: thrust_def Let_def pydiv_def pypow_def np_pow_def np_map_def np_add_def
        intPower_def power2_eq_square powr_nine_quarters_half algebra_simps)

lemma demo_thrust_nan: "thrust nanCollab demoMotor 3 2 p_a = Inr None"
  by (simp add: thrust_def nanCollab_def Let_def pydiv_def pypow_def np_pow_def np_map_def
        np_add_def intPower_def)

lemma demo_force_failing:
  "calcForce failingCollab demoMotor r (Some 2) p_a thr = Inl ZeroDivisionError"
  by (simp add: calcForce_def thrust_def failingCollab_def Let_def)

lemma demo_specKN: "specKN slabCollab demoMotor [0] (1 / 1000) = 1"
  by (simp add: specKN_def)

lemma throat_factor_le_one:
  fixes k :: real
  assumes "0 < k" "k \<noteq> 1"
  shows "(2 / (k + 1)) powr ((k + 1) / (k - 1)) \<le> 1"
proof (cases "1 < k")
  case True
  then have "0 \<le> (k + 1) / (k - 1)" "0 \<le> 2 / (k + 1)" "2 / (k + 1) \<le> 1" by simp_all
  then show ?thesis by (simp add: powr_le1)
next
  case False
  with assms have lt: "k < 1" by simp
  from lt assms have b: "1 \<le> 2 / (k + 1)" by simp
  from lt assms have e: "(k + 1) / (k - 1) \<le> 0" by (simp add: divide_nonneg_neg)
  from e b have "(2 / (k + 1)) powr ((k + 1) / (k - 1)) \<le> (2 / (k + 1)) powr 0"
    by (rule powr_mono)
  also have "\<dots> = 1" using assms(1) by simp
  finally show ?thesis .
qed

lemma demo_specD: "specD demoPropellant = 1 / 2"
proof -
  have "specD demoPropellant = sqrt (1 / 4)" by (simp add: specD_def power2_eq_square)
  also have "\<dots> = sqrt ((1 / 2)\<^sup>2)" by (simp add: power2_eq_square)
  also have "\<dots> = 1 / 2" by (simp only: real_sqrt_abs)
  finally show ?thesis .
qed

lemma demo_specIdealPressure:
  "specIdealPressure slabCollab demoMotor demoPropellant [0] None (1 / 1000) = 2"
  by (simp add: specIdealPressure_def demo_specD demo_specKN)

lemma demo_steps:
  "idealPressureSteps slabCollab demoMotor demoPropellant [0] None (1 / 1000)
   = [pi, 1, 1, 1, 1, 1, 3, 1, 1 / 2, 2, 1 / 4, 1 / 4, 2]"
  by (simp add: idealPressureSteps_def Let_def demo_specD demo_specKN intOfBool_def)

lemma representable_moderate:
  assumes "1 / 1000 \<le> \<bar>v\<bar>" "\<bar>v\<bar> \<le> 1000"
  shows "representable v"
proof -
  have "2 powr (- 1022) \<le> (1 / 1000 :: real)" by (simp add: powr_minus_divide)
  with assms(1) have "2 powr (- 1022) \<le> \<bar>v\<bar>" by (rule order_trans[rotated])
  moreover have "(1000 :: real) \<le> 2 ^ 1023" by simp
  with assms(2) have "\<bar>v\<bar> \<le> 2 ^ 1023" by (rule order_trans)
  ultimately show ?thesis by (simp add: representable_def)
qed

lemma unitExponent_fields [simp]:
  "grains unitExponentMotor = [demoGrain]"
  "propellant unitExponentMotor = Some (demoPropellant\<lparr>prop_n := 1\<rparr>)"
  "nozzle unitExponentMotor = demoNozzle"
  by (simp_all add: unitExponentMotor_def)

lemma steep_fields [simp]:
  "grains steepMotor = [demoGrain]" "propellant steepMotor = Some steepPropellant"
  "nozzle steepMotor = demoNozzle"
  by (simp_all add: steepMotor_def)

lemma steepPropellant_simps [simp]:
  "prop_k steepPropellant = 3" "prop_t steepPropellant = 3" "prop_m steepPropellant = 8314"
  "prop_density steepPropellant = 1" "prop_a steepPropellant = 1024"
  "prop_n steepPropellant = 99 / 100"
  by (simp_all add: steepPropellant_def)

lemma unitExponent_raises:
  "calcIdealPressure slabCollab unitExponentMotor [0] None (1 / 1000) = Inl ZeroDivisionError"
  by (simp add: calcIdealPressure_def calcKN_def intOfBool_def pydiv_def Let_def)

lemma steep_overflows: "overflows ((2048 :: real) powr 100)"
  by (simp add: overflows_def overflowThreshold_def)

lemma steep_raises:
  "calcIdealPressure slabCollab steepMotor [0] None (1 / 1000) = Inl OverflowError"
proof -
  have kn: "calcKN slabCollab steepMotor [0] (1 / 1000) = Inr 1"
    by (simp add: calcKN_def intOfBool_def pydiv_def)
  have q5: "pypow (1 / 2) 2 = Inr (1 / 4)"
    by (simp add: pypow_def intPower_def)
  have denom: "pypow (1 / 4) (1 / 2) = Inr (1 / 2)"
    by (simp add: pypow_def intPower_def powr_quarter_half)
  have last: "pypow 2048 100 = Inl OverflowError"
    using steep_overflows by (simp add: pypow_def intPower_def del: not_overflows_small)
  show ?thesis
    by (simp add: calcIdealPressure_def kn Let_def pydiv_def q5 denom last)
qed

lemma config_setupGrains [simp]: "config (setupGrains E mot) = config mot"
  by (simp add: setupGrains_def)

lemma loopCondition_eq:
  "ch_force sr \<noteq> [] \<Longrightarrow>
   loopCondition mot sr
   = Inr (fgreater (last (ch_force sr))
            (thrustBar (burnoutThrustThres (config mot)) (Max (set (ch_force sr)))))"
  by (simp add: loopCondition_def getLast_def getMax_def)

lemma finish_force: "finish mot sr = Inr res \<Longrightarrow> ch_force res = ch_force sr"
  by (erule finish_Inr) simp

subsection \<open>The one-step motor, evaluated\<close>

lemma flash_fields [simp]:
  "grains flashMotor = [boosterGrain]" "propellant flashMotor = Some demoPropellant"
  "nozzle flashMotor = demoNozzle" "config flashMotor = demoConfig"
  by (simp_all add: flashMotor_def)

lemma boosterGrain_simps [simp]:
  "web boosterGrain = 1 / 20" "area boosterGrain = 6 * pi" "port boosterGrain = None"
  "endBurner boosterGrain = False"
  by (simp_all add: boosterGrain_def)

lemma setupGrains_flash [simp]: "setupGrains slabCollab flashMotor = flashMotor"
  by (simp add: setupGrains_def flashMotor_def)

lemma zeros_flash [simp]: "zeros flashMotor = [0]"
  by (simp add: zeros_def)

lemma validate_flash [simp]: "validate slabCollab flashMotor = newSimulationResult"
  by (simp add: validate_eq validationAlerts_def grainAlerts_def newSimulationResult_def)

lemma flash_calcKN_0: "calcKN slabCollab flashMotor [0] (1 / 1000) = Inr 6"
  by (simp add: calcKN_def intOfBool_def pydiv_def)

lemma flash_calcKN_1: "calcKN slabCollab flashMotor [1 / 10] (1 / 1000) = Inr 0"
  by (simp add: calcKN_def intOfBool_def pydiv_def)

lemma flash_pressure_0:
  "calcIdealPressure slabCollab flashMotor r (Some 0) thr = Inr 0"
  by (simp add: calcIdealPressure_def Let_def pydiv_def pypow_def intPower_def powr_quarter_half)

lemma flash_pressure_None:
  "calcIdealPressure slabCollab flashMotor [0] None (1 / 1000) = Inr 12"
  by (simp add: calcIdealPressure_def flash_calcKN_0 Let_def pydiv_def pypow_def intPower_def
        powr_quarter_half)

lemma flash_thrust: "thrust slabCollab flashMotor 3 12 1 = Inr (Some (17 * pi))"
  by (simp add: thrust_def Let_def pydiv_def pypow_def np_pow_def np_map_def np_add_def
        intPower_def power2_eq_square powr_nine_quarters_half algebra_simps)

lemma flash_force_0: "calcForce slabCollab flashMotor r (Some 0) 1 thr = Inr 0"
  by (simp add: calcForce_def)

lemma flash_force_None: "calcForce slabCollab flashMotor [0] None 1 (1 / 1000) = Inr (17 * pi)"
  by (simp add: calcForce_def flash_pressure_None flash_thrust clampForce_def np_isnan_def
        np_less_def)

lemma flash_initialise:
  "initialise slabCollab flashMotor 1 newSimulationResult = Inr flashSeeded"
  by (simp add: initialise_def seedSamples_def Let_def flash_calcKN_0 flash_pressure_None
        flash_force_None checkPortThroat_def getLast_def pydiv_def addAlert_def
        newSimulationResult_def flashSeeded_def)

lemma flash_entersLoop: "entersLoop slabCollab flashMotor () demoPropellant flashStart"
  by (simp add: entersLoop_def flash_initialise flashStart_def)

lemma flashSeeded_simps [simp]:
  "ch_time flashSeeded = [0, 1 / 10]" "ch_pressure flashSeeded = [0, 12]"
  "ch_force flashSeeded = [0, 17 * pi]"
  "ch_mass flashSeeded = [[3 * pi / 10], [3 * pi / 10]]"
  by (simp_all add: flashSeeded_def)

lemma flash_sweep:
  "sweep slabCollab flashMotor flashSeeded 1 0 1 [0]
   = Inr \<lparr>mf = 0, perGrainMass = [3 * pi / 10], perGrainMassFlow = [0],
          perGrainMassFlux = [6 * pi], perGrainReg = [1 / 10]\<rparr>"
  by (simp add: sweep_def sweepGrain_def getItem_def setItem_def getLast_def pypow_def
        pydiv_def Let_def)

lemma flash_step:
  "burnStep slabCollab flashMotor noCallback 1 0 1 flashStart = Inr (Continue flashEnd)"
  by (simp add: burnStep_def flashStart_def flash_sweep flash_calcKN_1 flash_pressure_0
        flash_force_0 getLast_def Let_def appended_def flashEnd_def noCallback_def)

lemma flash_cond_start: "loopCondition flashMotor (st_simRes flashStart) = Inr True"
  using _ _ _ _ pi_bounds(5,6) by (rule loopCondition_peak) (simp_all add: flashStart_def)

lemma flash_stateAfter:
  "stateAfter slabCollab flashMotor noCallback 1 0 1 (Suc 0) flashStart = Some flashEnd"
  by (simp add: flash_cond_start flash_step)

lemma flash_force_channel: "ch_force (st_simRes flashEnd) = [0, 17 * pi, 0]"
  by (simp add: flashEnd_def appended_def)

lemma flash_cond_end: "loopCondition flashMotor (st_simRes flashEnd) = Inr False"
proof (rule loopCondition_spent)
  show "Max (set (ch_force (st_simRes flashEnd))) = 17 * pi"
    by (simp add: flash_force_channel)
  show "17 * pi \<le> 1000" by (rule pi_bounds)
qed (simp_all add: flash_force_channel)

subsection \<open>The loop condition at its boundary\<close>

lemma double_023: "roundDouble (23 / 100) = 8286623314361713 / 2 ^ 55"
  by (subst roundDouble_eq[where e = "- 3"]) (simp_all add: roundHalfEven_def powr_minus_divide)

lemma double_00575: "roundDouble (575 / 10000) = 8286623314361713 / 2 ^ 57"
  by (subst roundDouble_eq[where e = "- 5"]) (simp_all add: roundHalfEven_def powr_minus_divide)

lemma product_023_001:
  "roundDouble (8286623314361713 / 2 ^ 55 * (5764607523034235 / 2 ^ 59))
   = 5303438921191496 / 2 ^ 61"
  by (subst roundDouble_eq[where e = "- 9"]) (simp_all add: roundHalfEven_def powr_minus_divide)

lemma product_00023_25:
  "roundDouble (5303438921191496 / 2 ^ 61 * 25) = 8286623314361712 / 2 ^ 57"
  by (subst roundDouble_eq[where e = "- 5"]) (simp_all add: roundHalfEven_def powr_minus_divide)

lemma thrustBar_boundary:
  "thrustBar (roundDouble (23 / 100)) 25 = Finite (8286623314361712 / 2 ^ 57)"
proof -
  have 1: "\<not> overflows (8286623314361713 / 2 ^ 55 * (5764607523034235 / 2 ^ 59))"
    by (intro not_overflows) simp
  have 2: "\<not> overflows (5303438921191496 / 2 ^ 61 * 25)"
    by (intro not_overflows) simp
  show ?thesis
    unfolding thrustBar_def double_023 lit001_value
    by (simp only: fmul.simps 1 2 if_False product_023_001 product_00023_25)
qed

lemma thrustBar_above: "thrustBar 1 1 = Finite (roundDouble (1 / 100))"
proof -
  have "thrustBar 1 1 = Finite (roundDouble (lit001 * 1))" by (rule thrustBar_one) simp
  then show ?thesis by (simp add: roundDouble_lit001) (simp add: lit001_def)
qed

subsection \<open>The motor with a negative burn rate, evaluated\<close>

lemma powr_four_half: "(4 :: real) powr (1 / 2) = 2"
proof -
  have "(4 :: real) powr (1 / 2) = sqrt 4" by (simp add: powr_half_sqrt)
  also have "\<dots> = 2" by simp
  finally show ?thesis .
qed

lemma retro_fields [simp]:
  "grains retroMotor = [demoGrain]" "propellant retroMotor = Some retroPropellant"
  "nozzle retroMotor = demoNozzle" "config retroMotor = demoConfig"
  by (simp_all add: retroMotor_def demoMotor_def)

lemma retroPropellant_simps [simp]:
  "prop_k retroPropellant = 3" "prop_t retroPropellant = 3" "prop_m retroPropellant = 8314"
  "prop_density retroPropellant = 1" "prop_a retroPropellant = - 1"
  "prop_n retroPropellant = 1 / 2"
  by (simp_all add: retroPropellant_def demoPropellant_def)

lemma setupGrains_retro [simp]: "setupGrains slabCollab retroMotor = retroMotor"
  by (simp add: setupGrains_def retroMotor_def demoMotor_def)

lemma zeros_retro [simp]: "zeros retroMotor = [0]"
  by (simp add: zeros_def)

lemma validate_retro [simp]: "validate slabCollab retroMotor = newSimulationResult"
  by (simp add: validate_eq validationAlerts_def grainAlerts_def newSimulationResult_def)

lemma retro_calcKN:
  "r < 249 / 1000 \<Longrightarrow> calcKN slabCollab retroMotor [r] (1 / 1000) = Inr 1"
  by (simp add: calcKN_def intOfBool_def pydiv_def)

lemma retro_pressure:
  "calcIdealPressure slabCollab retroMotor r (Some 1) thr = Inr 4"
  by (simp add: calcIdealPressure_def Let_def pydiv_def pypow_def intPower_def powr_quarter_half)

lemma retro_pressure_None:
  "calcIdealPressure slabCollab retroMotor [0] None (1 / 1000) = Inr 4"
  by (simp add: calcIdealPressure_def retro_calcKN Let_def pydiv_def pypow_def intPower_def
        powr_quarter_half)

lemma retro_thrust: "thrust slabCollab retroMotor 3 4 1 = Inr (Some (5 * pi))"
  by (simp add: thrust_def Let_def pydiv_def pypow_def np_pow_def np_map_def np_add_def
        intPower_def power2_eq_square powr_nine_quarters_half algebra_simps)

lemma retro_force_4: "calcForce slabCollab retroMotor r (Some 4) 1 thr = Inr (5 * pi)"
  by (simp add: calcForce_def retro_thrust clampForce_def np_isnan_def np_less_def)

lemma retro_force_None: "calcForce slabCollab retroMotor [0] None 1 (1 / 1000) = Inr (5 * pi)"
  by (simp add: calcForce_def retro_pressure_None retro_thrust clampForce_def np_isnan_def
        np_less_def)

lemma retro_initialise:
  "initialise slabCollab retroMotor 1 newSimulationResult = Inr retroSeeded"
  by (simp add: initialise_def seedSamples_def Let_def retro_calcKN retro_pressure_None
        retro_force_None checkPortThroat_def getLast_def pydiv_def addAlert_def
        newSimulationResult_def retroSeeded_def)

lemma retro_entersLoop: "entersLoop slabCollab retroMotor 0 retroPropellant retroStart"
  by (simp add: entersLoop_def retro_initialise retroStart_def)

lemma retroSeeded_simps [simp]:
  "ch_time retroSeeded = [0, 1 / 10]" "ch_pressure retroSeeded = [0, 4]"
  "ch_force retroSeeded = [0, 5 * pi]" "ch_mass retroSeeded = [[pi / 4], [pi / 4]]"
  by (simp_all add: retroSeeded_def)

lemma retro_sweep:
  assumes "ch_pressure sr \<noteq> []" "last (ch_pressure sr) = 4"
      and "ch_mass sr \<noteq> []" "last (ch_mass sr) = [m]" "r0 \<le> 0"
  shows "sweep slabCollab retroMotor sr (- 1) (1 / 2) 1 [r0]
         = Inr \<lparr>mf = (m - pi * (1 / 4 - r0)) * 10, perGrainMass = [pi * (1 / 4 - r0)],
                perGrainMassFlow = [(m - pi * (1 / 4 - r0)) * 10],
                perGrainMassFlux = [- (2 * pi)], perGrainReg = [r0 - 1 / 5]\<rparr>"
  using assms
  by (simp add: sweep_def sweepGrain_def getItem_def setItem_def getLast_def pypow_def
        intPower_def powr_four_half pydiv_def Let_def max_def)

lemma retro_progress:
  "progressValue slabCollab retroMotor [r] = Inr (4 * r)"
  by (simp add: progressValue_def pydiv_def getMax_def algebra_simps)

lemma retro_burnStep:
  assumes "ch_pressure sr \<noteq> []" "last (ch_pressure sr) = 4"
      and "ch_mass sr \<noteq> []" "last (ch_mass sr) = [m]"
      and "ch_time sr \<noteq> []" "last (ch_time sr) = t" "r0 \<le> 0"
  shows "burnStep slabCollab retroMotor (Some cbf) (- 1) (1 / 2) 1
           \<lparr>st_simRes = sr, st_reg = [r0], st_cb = c\<rparr>
         = Inr (let sr' = appended sr (t + 1 / 10) 1 4 (5 * pi) [pi * (1 / 4 - r0)]
                            [(m - pi * (1 / 4 - r0)) * 10] [- (2 * pi)];
                    answer = cbf c (4 * (r0 - 1 / 5))
                in if fst answer then Return sr'
                   else Continue \<lparr>st_simRes = sr', st_reg = [r0 - 1 / 5], st_cb = snd answer\<rparr>)"
  using assms
  by (simp add: burnStep_def retro_sweep retro_calcKN retro_pressure retro_force_4
        retro_progress getLast_def Let_def appended_def)

lemma retro_first_step:
  "burnStep slabCollab retroMotor (Some cancelAtSecond) (- 1) (1 / 2) 1 retroStart
   = Inr (Continue retroMid)"
  unfolding retroStart_def retroMid_def
  by (subst retro_burnStep[where m = "pi / 4" and t = "1 / 10"])
     (simp_all add: cancelAtSecond_def retroStep1_def Let_def)

lemma retro_second_step:
  "burnStep slabCollab retroMotor (Some cancelAtSecond) (- 1) (1 / 2) 1 retroMid
   = Inr (Return retroStep2)"
  unfolding retroMid_def
  by (subst retro_burnStep[where m = "pi / 4" and t = "1 / 5"])
     (simp_all add: cancelAtSecond_def retroStep1_def retroStep2_def Let_def appended_def
        algebra_simps)

lemma retro_loopCondition:
  assumes "ch_force sr \<noteq> []" "last (ch_force sr) = 5 * pi" "Max (set (ch_force sr)) = 5 * pi"
  shows "loopCondition retroMotor sr = Inr True"
  using _ assms pi_bounds(3,4) by (rule loopCondition_peak) simp

lemma retro_cond_start: "loopCondition retroMotor (st_simRes retroStart) = Inr True"
  by (rule retro_loopCondition) (simp_all add: retroStart_def)

lemma retro_cond_mid: "loopCondition retroMotor (st_simRes retroMid) = Inr True"
  by (rule retro_loopCondition) (simp_all add: retroMid_def retroStep1_def appended_def)

lemma retro_stateAfter_1:
  "stateAfter slabCollab retroMotor (Some cancelAtSecond) (- 1) (1 / 2) 1 (Suc 0) retroStart
   = Some retroMid"
  by (simp add: retro_cond_start retro_first_step)

lemma retro_cancelledAt:
  "cancelledAt slabCollab retroMotor cancelAtSecond (- 1) (1 / 2) 1 2 retroStart
   = Some retroStep2"
  unfolding cancelledAt_def
  by (simp add: retro_stateAfter_1 retro_cond_mid retro_second_step del: stateAfter.simps)

subsection \<open>The motor definition record\<close>

lemma mapE_map_Inr:
  "(\<And>x. x \<in> set xs \<Longrightarrow> f (g x) = Inr x) \<Longrightarrow> mapE f (map g xs) = Inr xs"
  by (induction xs) simp_all

subsection \<open>The regression increment is not negative\<close>

lemma intPower_pos: "0 < x \<Longrightarrow> 0 < intPower x y"
  by (simp add: intPower_def)

lemma pypow_nonneg_base: "0 \<le> x \<Longrightarrow> pypow x y = Inr v \<Longrightarrow> 0 \<le> v"
  by (auto simp: pypow_def intPower_def split: if_splits)

lemma pypow_negative_result:
  assumes "pypow q e = Inr p" "p < 0"
  shows "q < 0 \<and> isIntegral e \<and> odd \<lfloor>e\<rfloor>"
proof -
  from assms have e0: "e \<noteq> 0" and q0: "q \<noteq> 0"
    by (auto simp: pypow_def split: if_splits)
  have qneg: "q < 0"
  proof (rule ccontr)
    assume "\<not> q < 0"
    with q0 have "0 < q" by simp
    with assms(1) e0 have "p = q powr e"
      by (auto simp: pypow_def intPower_def split: if_splits)
    with \<open>0 < q\<close> have "0 < p" by simp
    with assms(2) show False by simp
  qed
  with assms(1) e0 q0 have int: "isIntegral e" and p: "p = intPower q e"
    by (auto simp: pypow_def split: if_splits)
  have "odd \<lfloor>e\<rfloor>"
  proof (rule ccontr)
    assume "\<not> odd \<lfloor>e\<rfloor>"
    with p qneg have "p = (- q) powr e" by (simp add: intPower_def)
    with qneg have "0 < p" by simp
    with assms(2) show False by simp
  qed
  with qneg int show ?thesis by simp
qed

lemma integral_reciprocal:
  assumes "isIntegral e" "isIntegral n" "e * (1 - n) = 1"
  shows "n = 0 \<or> n = 2"
proof -
  have e: "e = of_int \<lfloor>e\<rfloor>" by (rule sym) (rule assms(1)[unfolded isIntegral_def])
  have n: "n = of_int \<lfloor>n\<rfloor>" by (rule sym) (rule assms(2)[unfolded isIntegral_def])
  have "(of_int (\<lfloor>e\<rfloor> * (1 - \<lfloor>n\<rfloor>)) :: real) = e * (1 - n)"
    by (subst e, subst n) simp
  with assms(3) have "(of_int (\<lfloor>e\<rfloor> * (1 - \<lfloor>n\<rfloor>)) :: real) = of_int 1" by simp
  then have "\<lfloor>e\<rfloor> * (1 - \<lfloor>n\<rfloor>) = 1" by (simp only: of_int_eq_iff)
  then have "1 - \<lfloor>n\<rfloor> = 1 \<or> 1 - \<lfloor>n\<rfloor> = - 1"
    by (auto simp: zmult_eq_1_iff)
  then have "\<lfloor>n\<rfloor> = 0 \<or> \<lfloor>n\<rfloor> = 2" by auto
  then show ?thesis by (subst (1 2) n) auto
qed

lemma pypow_twice_nonneg:
  assumes p: "pypow q (1 / (1 - n)) = Inr p" and n1: "n \<noteq> 1" and pw: "pypow p n = Inr pw"
  shows "0 \<le> pw"
proof (cases "0 \<le> p")
  case True
  then show ?thesis using pw by (rule pypow_nonneg_base)
next
  case False
  then have neg: "p < 0" by simp
  from pypow_negative_result[OF p neg] have ie: "isIntegral (1 / (1 - n))" by simp
  show ?thesis
  proof (cases "n = 0")
    case True
    with pw show ?thesis by (simp add: pypow_def)
  next
    case n0: False
    with pw neg have inn: "isIntegral n" and v: "pw = intPower p n"
      by (auto simp: pypow_def split: if_splits)
    have "1 / (1 - n) * (1 - n) = 1" using n1 by simp
    from integral_reciprocal[OF ie inn this] n0 have "n = 2" by simp
    then have "even \<lfloor>n\<rfloor>" by simp
    with v neg have "pw = (- p) powr n" by (simp add: intPower_def)
    then show ?thesis by simp
  qed
qed

lemma calcIdealPressure_Inr:
  assumes "calcIdealPressure E mot r knOpt thr = Inr p" "propellant mot = Some pr"
  shows "prop_n pr \<noteq> 1 \<and> (\<exists>q. pypow q (1 / (1 - prop_n pr)) = Inr p)"
  using assms
  unfolding calcIdealPressure_def Let_def
  by (auto simp: bindE_eq_Inr pydiv_def split: if_splits)

lemma burnRate_nonneg:
  assumes "calcIdealPressure E mot r knOpt thr = Inr p" "propellant mot = Some pr"
      and "pypow p (prop_n pr) = Inr pw"
  shows "0 \<le> pw"
proof -
  from calcIdealPressure_Inr[OF assms(1,2)] obtain q where
    n: "prop_n pr \<noteq> 1" and q: "pypow q (1 / (1 - prop_n pr)) = Inr p" by blast
  from q n assms(3) show ?thesis by (rule pypow_twice_nonneg)
qed

subsection \<open>What the sweep does to the regression and the mass\<close>

lemma sweepGrain_spent:
  assumes "sweepGrain E sr ts a n \<rho> thr (j, g) v0 = Inr v1"
      and "\<not> thr < getWebLeft E g (perGrainReg v0 ! j)"
  shows "perGrainReg v1 = perGrainReg v0 \<and> perGrainMass v1 = perGrainMass v0
       \<and> j < length (perGrainReg v0)"
  using assms
  unfolding sweepGrain_def
  by (auto simp: bindE_eq_Inr getItem_def setItem_def split: if_splits)

lemma sweepGrain_burning:
  assumes "sweepGrain E sr ts a n \<rho> thr (j, g) v0 = Inr v1"
      and "thr < getWebLeft E g (perGrainReg v0 ! j)"
  shows "\<exists>pLast pw. getLast (ch_pressure sr) = Inr pLast \<and> pypow pLast n = Inr pw
           \<and> perGrainReg v1 = (perGrainReg v0)[j := perGrainReg v0 ! j + ts * a * pw]
           \<and> perGrainMass v1
               = (perGrainMass v0)[j := getVolumeAtRegression E g (perGrainReg v0 ! j) * \<rho>]
           \<and> j < length (perGrainReg v0) \<and> j < length (perGrainMass v0)"
  using assms
  unfolding sweepGrain_def Let_def
  by (auto simp: bindE_eq_Inr getItem_def setItem_def split: if_splits)

lemma sweepGrain_Inr:
  assumes "sweepGrain E sr ts a n \<rho> thr (j, g) v0 = Inr v1"
      and "length (perGrainMass v0) = length (perGrainReg v0)"
  shows "j < length (perGrainReg v0)"
    and "length (perGrainReg v1) = length (perGrainReg v0)"
    and "length (perGrainMass v1) = length (perGrainReg v0)"
    and "\<And>i. i \<noteq> j \<Longrightarrow> perGrainReg v1 ! i = perGrainReg v0 ! i
                        \<and> perGrainMass v1 ! i = perGrainMass v0 ! i"
    and "swept E sr ts a n \<rho> thr g (perGrainReg v0 ! j) (perGrainMass v0 ! j)
           (perGrainReg v1 ! j) (perGrainMass v1 ! j)"
proof -
  show "j < length (perGrainReg v0)"
    using sweepGrain_spent[OF assms(1)] sweepGrain_burning[OF assms(1)] by blast
  show "length (perGrainReg v1) = length (perGrainReg v0)"
    using sweepGrain_spent[OF assms(1)] sweepGrain_burning[OF assms(1)] by fastforce
  show "length (perGrainMass v1) = length (perGrainReg v0)"
    using sweepGrain_spent[OF assms(1)] sweepGrain_burning[OF assms(1)] assms(2) by fastforce
  show "\<And>i. i \<noteq> j \<Longrightarrow> perGrainReg v1 ! i = perGrainReg v0 ! i
                        \<and> perGrainMass v1 ! i = perGrainMass v0 ! i"
    using sweepGrain_spent[OF assms(1)] sweepGrain_burning[OF assms(1)] by fastforce
  show "swept E sr ts a n \<rho> thr g (perGrainReg v0 ! j) (perGrainMass v0 ! j)
           (perGrainReg v1 ! j) (perGrainMass v1 ! j)"
  proof (cases "thr < getWebLeft E g (perGrainReg v0 ! j)")
    case True
    from sweepGrain_burning[OF assms(1) True] show ?thesis
      unfolding swept_def using True by auto
  next
    case False
    from sweepGrain_spent[OF assms(1) False] show ?thesis
      unfolding swept_def using False by simp
  qed
qed

lemma forEach_sweepGrain:
  assumes "forEachE (sweepGrain E sr ts a n \<rho> thr) (enumerate j gs) v0 = Inr v"
      and "length (perGrainMass v0) = length (perGrainReg v0)"
  shows "length (perGrainReg v) = length (perGrainReg v0)
       \<and> length (perGrainMass v) = length (perGrainReg v0)
       \<and> (gs \<noteq> [] \<longrightarrow> j + length gs \<le> length (perGrainReg v0))
       \<and> (\<forall>i. i < j \<or> j + length gs \<le> i \<longrightarrow>
             perGrainReg v ! i = perGrainReg v0 ! i \<and> perGrainMass v ! i = perGrainMass v0 ! i)
       \<and> (\<forall>i < length gs.
             swept E sr ts a n \<rho> thr (gs ! i) (perGrainReg v0 ! (j + i)) (perGrainMass v0 ! (j + i))
               (perGrainReg v ! (j + i)) (perGrainMass v ! (j + i)))"
  using assms
proof (induction gs arbitrary: j v0)
  case Nil
  then show ?case by simp
next
  case (Cons g gs)
  from Cons.prems(1) obtain v1 where
    1: "sweepGrain E sr ts a n \<rho> thr (j, g) v0 = Inr v1"
    and 2: "forEachE (sweepGrain E sr ts a n \<rho> thr) (enumerate (Suc j) gs) v1 = Inr v"
    by (auto simp: bindE_eq_Inr)
  note s = sweepGrain_Inr[OF 1 Cons.prems(2)]
  have l1: "length (perGrainMass v1) = length (perGrainReg v1)" using s(2,3) by simp
  note ih = Cons.IH[OF 2 l1]
  have ih_out: "perGrainReg v ! i = perGrainReg v1 ! i \<and> perGrainMass v ! i = perGrainMass v1 ! i"
    if "i < Suc j \<or> Suc j + length gs \<le> i" for i
    using ih that by blast
  have ih_in: "swept E sr ts a n \<rho> thr (gs ! i) (perGrainReg v1 ! (Suc j + i))
                 (perGrainMass v1 ! (Suc j + i)) (perGrainReg v ! (Suc j + i))
                 (perGrainMass v ! (Suc j + i))"
    if "i < length gs" for i
    using ih that by blast
  have ih_len: "length (perGrainReg v) = length (perGrainReg v1)"
    "length (perGrainMass v) = length (perGrainReg v1)"
    "gs \<noteq> [] \<Longrightarrow> Suc j + length gs \<le> length (perGrainReg v1)"
    using ih by blast+
  have len: "length (perGrainReg v) = length (perGrainReg v0)"
    "length (perGrainMass v) = length (perGrainReg v0)"
    using ih_len s(2) by simp_all
  have bound: "j + length (g # gs) \<le> length (perGrainReg v0)"
  proof (cases "gs = []")
    case True
    with s(1) show ?thesis by simp
  next
    case False
    from ih_len(3)[OF this] s(2) show ?thesis by simp
  qed
  have out: "perGrainReg v ! i = perGrainReg v0 ! i \<and> perGrainMass v ! i = perGrainMass v0 ! i"
    if "i < j \<or> j + length (g # gs) \<le> i" for i
  proof -
    from that have a: "i < Suc j \<or> Suc j + length gs \<le> i" and b: "i \<noteq> j" by auto
    from ih_out[OF a] s(4)[OF b] show ?thesis by simp
  qed
  have inn: "swept E sr ts a n \<rho> thr ((g # gs) ! i) (perGrainReg v0 ! (j + i))
               (perGrainMass v0 ! (j + i)) (perGrainReg v ! (j + i)) (perGrainMass v ! (j + i))"
    if "i < length (g # gs)" for i
  proof (cases i)
    case 0
    have "perGrainReg v ! j = perGrainReg v1 ! j \<and> perGrainMass v ! j = perGrainMass v1 ! j"
      by (rule ih_out) simp
    with s(5) 0 show ?thesis by simp
  next
    case (Suc i')
    with that have i': "i' < length gs" by simp
    have "perGrainReg v1 ! (Suc j + i') = perGrainReg v0 ! (Suc j + i')
          \<and> perGrainMass v1 ! (Suc j + i') = perGrainMass v0 ! (Suc j + i')"
      by (rule s(4)) simp
    with ih_in[OF i'] Suc show ?thesis by simp
  qed
  from len bound out inn show ?case by blast
qed

lemma sweep_Inr:
  assumes "sweep E mot sr a n \<rho> regs = Inr v"
      and "length regs = length (grains mot)"
  shows "length (perGrainReg v) = length (grains mot)
       \<and> length (perGrainMass v) = length (grains mot)
       \<and> (\<forall>i < length (grains mot).
             swept E sr (timestep (config mot)) a n \<rho> (burnoutWebThres (config mot))
               (grains mot ! i) (regs ! i) 0 (perGrainReg v ! i) (perGrainMass v ! i))"
proof -
  let ?v0 = "\<lparr>mf = 0, perGrainMass = zeros mot, perGrainMassFlow = zeros mot,
               perGrainMassFlux = zeros mot, perGrainReg = regs\<rparr>"
  have l: "length (perGrainMass ?v0) = length (perGrainReg ?v0)"
    using assms(2) by (simp add: zeros_def)
  from assms(1) have "forEachE (sweepGrain E sr (timestep (config mot)) a n \<rho>
                        (burnoutWebThres (config mot))) (enumerate 0 (grains mot)) ?v0 = Inr v"
    by (simp add: sweep_def)
  from forEach_sweepGrain[OF this l] assms(2)
  show ?thesis by (simp add: zeros_def)
qed

subsection \<open>Regression and mass along a run\<close>

lemma swept_facts:
  assumes sw: "swept E sr ts a n \<rho> thr g r 0 r' m'"
      and phys: "physicalVolume E thr g"
      and pos: "0 \<le> ts" "0 \<le> a" "0 \<le> \<rho>"
      and pres: "ch_pressure sr \<noteq> []" "\<forall>pw. pypow (last (ch_pressure sr)) n = Inr pw \<longrightarrow> 0 \<le> pw"
      and old: "0 \<le> m" "thr < getWebLeft E g r \<longrightarrow> getVolumeAtRegression E g r * \<rho> \<le> m"
  shows "r \<le> r' \<and> m' \<le> m \<and> 0 \<le> m'
       \<and> (thr < getWebLeft E g r' \<longrightarrow> getVolumeAtRegression E g r' * \<rho> \<le> m')"
proof (cases "thr < getWebLeft E g r")
  case False
  with sw have "r' = r" "m' = 0" by (simp_all add: swept_def)
  with False old show ?thesis by simp
next
  case True
  with sw obtain pLast pw where
    l: "getLast (ch_pressure sr) = Inr pLast" and p: "pypow pLast n = Inr pw"
    and r': "r' = r + ts * a * pw" and m': "m' = getVolumeAtRegression E g r * \<rho>"
    by (auto simp: swept_def)
  from l pres(1) have "pLast = last (ch_pressure sr)" by (simp add: getLast_def)
  with p pres(2) have "0 \<le> pw" by blast
  with pos have "0 \<le> ts * a * pw" by simp
  with r' have le: "r \<le> r'" by simp
  have "getVolumeAtRegression E g r' * \<rho> \<le> m'" if "thr < getWebLeft E g r'"
  proof -
    from phys le True that
    have "getVolumeAtRegression E g r' \<le> getVolumeAtRegression E g r"
      unfolding physicalVolume_def by blast
    then show ?thesis unfolding m' using pos(3) by (rule mult_right_mono)
  qed
  moreover have "0 \<le> m'"
  proof -
    from phys True have "0 \<le> getVolumeAtRegression E g r"
      unfolding physicalVolume_def by blast
    with pos(3) show ?thesis unfolding m' by simp
  qed
  moreover from old(2) True have "m' \<le> m" unfolding m' by simp
  ultimately show ?thesis using le by simp
qed

lemma massOrdered_snoc:
  "massOrdered ms \<Longrightarrow> ms \<noteq> [] \<Longrightarrow> sum_list m \<le> sum_list (last ms) \<Longrightarrow> massOrdered (ms @ [m])"
  by (simp add: massOrdered_def successively_append_iff)

lemma appended_channels [simp]:
  "ch_mass (appended sr t kn p f ms flows fluxes) = ch_mass sr @ [ms]"
  "ch_pressure (appended sr t kn p f ms flows fluxes) = ch_pressure sr @ [p]"
  "ch_force (appended sr t kn p f ms flows fluxes) = ch_force sr @ [f]"
  "ch_time (appended sr t kn p f ms flows fluxes) = ch_time sr @ [t]"
  by (simp_all add: appended_def)

lemma burnStep_invariant:
  assumes inv: "burnInvariant E mot pr st"
      and step: "burnStep E mot callback (prop_a pr) (prop_n pr) (prop_density pr) st = Inr fl"
      and pr: "propellant mot = Some pr"
      and phys: "\<forall>g \<in> set (grains mot). physicalVolume E (burnoutWebThres (config mot)) g"
      and pos: "0 \<le> timestep (config mot)" "0 \<le> prop_a pr" "0 \<le> prop_density pr"
  shows "massOrdered (ch_mass (flowResult fl))
       \<and> (\<forall>st'. fl = Continue st' \<longrightarrow>
             burnInvariant E mot pr st'
             \<and> (\<forall>i < length (grains mot). st_reg st ! i \<le> st_reg st' ! i))"
  using step
proof (rule burnStep_Inr)
  fix v kn pres f tLast
  let ?sr = "st_simRes st" and ?N = "length (grains mot)"
  let ?thr = "burnoutWebThres (config mot)"
  assume sw: "sweep E mot ?sr (prop_a pr) (prop_n pr) (prop_density pr) (st_reg st) = Inr v"
    and ip: "calcIdealPressure E mot (perGrainReg v) (Some kn) ?thr = Inr pres"
    and res: "flowResult fl = appended ?sr (tLast + timestep (config mot)) kn pres f
                       (perGrainMass v) (perGrainMassFlow v) (perGrainMassFlux v)"
    and regs: "\<And>st'. fl = Continue st' \<Longrightarrow> st_reg st' = perGrainReg v"
  from inv have
    ilen: "length (st_reg st) = ?N" "ch_mass ?sr \<noteq> []" "length (last (ch_mass ?sr)) = ?N"
    and ipres: "ch_pressure ?sr \<noteq> []"
               "\<forall>pw. pypow (last (ch_pressure ?sr)) (prop_n pr) = Inr pw \<longrightarrow> 0 \<le> pw"
    and iord: "massOrdered (ch_mass ?sr)"
    unfolding burnInvariant_def Let_def by blast+
  from inv have imass: "0 \<le> last (ch_mass ?sr) ! i"
      "?thr < getWebLeft E (grains mot ! i) (st_reg st ! i)
         \<longrightarrow> getVolumeAtRegression E (grains mot ! i) (st_reg st ! i) * prop_density pr
              \<le> last (ch_mass ?sr) ! i"
    if "i < ?N" for i
    using that unfolding burnInvariant_def Let_def by blast+
  from sweep_Inr[OF sw ilen(1)] have
    vlen: "length (perGrainReg v) = ?N" "length (perGrainMass v) = ?N"
    and vsw: "\<And>i. i < ?N \<Longrightarrow>
             swept E ?sr (timestep (config mot)) (prop_a pr) (prop_n pr) (prop_density pr) ?thr
               (grains mot ! i) (st_reg st ! i) 0 (perGrainReg v ! i) (perGrainMass v ! i)"
    by blast+
  have facts: "st_reg st ! i \<le> perGrainReg v ! i
       \<and> perGrainMass v ! i \<le> last (ch_mass ?sr) ! i \<and> 0 \<le> perGrainMass v ! i
       \<and> (?thr < getWebLeft E (grains mot ! i) (perGrainReg v ! i)
            \<longrightarrow> getVolumeAtRegression E (grains mot ! i) (perGrainReg v ! i) * prop_density pr
                 \<le> perGrainMass v ! i)"
    if i: "i < ?N" for i
  proof -
    from i phys have "physicalVolume E ?thr (grains mot ! i)" by simp
    from swept_facts[OF vsw[OF i] this pos ipres imass[OF i]] show ?thesis .
  qed
  have "sum_list (perGrainMass v) \<le> sum_list (last (ch_mass ?sr))"
    using vlen(2) ilen(3) facts by (intro sum_list_mono2) simp_all
  with iord ilen(2) have ord: "massOrdered (ch_mass (flowResult fl))"
    unfolding res by (simp add: massOrdered_snoc)
  have rate: "\<forall>pw. pypow pres (prop_n pr) = Inr pw \<longrightarrow> 0 \<le> pw"
    using burnRate_nonneg[OF ip pr] by blast
  have "burnInvariant E mot pr st' \<and> (\<forall>i < ?N. st_reg st ! i \<le> st_reg st' ! i)"
    if c: "fl = Continue st'" for st'
  proof -
    from c res have sr': "st_simRes st' = appended ?sr (tLast + timestep (config mot)) kn pres f
                       (perGrainMass v) (perGrainMassFlow v) (perGrainMassFlux v)"
      by (simp add: flowResult_def)
    from ord c have ord': "massOrdered (ch_mass (st_simRes st'))" by (simp add: flowResult_def)
    have "burnInvariant E mot pr st'"
      unfolding burnInvariant_def Let_def
      using regs[OF c] vlen facts rate ord' by (simp add: sr')
    moreover have "\<forall>i < ?N. st_reg st ! i \<le> st_reg st' ! i"
      using regs[OF c] facts by simp
    ultimately show ?thesis by simp
  qed
  with ord show ?thesis by blast
qed

lemma seedSamples_Inr:
  assumes "seedSamples E mot \<rho> sr0 = Inr sr"
  shows "\<exists>p1. calcIdealPressure E mot (zeros mot) None (burnoutWebThres (config mot)) = Inr p1
           \<and> ch_pressure sr = ch_pressure sr0 @ [0, p1]
           \<and> ch_mass sr = ch_mass sr0
                @ [map (\<lambda>grain. getVolumeAtRegression E grain 0 * \<rho>) (grains mot),
                   map (\<lambda>grain. getVolumeAtRegression E grain 0 * \<rho>) (grains mot)]"
  using assms
  unfolding seedSamples_def Let_def
  by (auto simp: bindE_eq_Inr)

lemma checkPortThroat_Inr:
  assumes "checkPortThroat E mot sr0 = Inr sr"
  shows "ch_mass sr = ch_mass sr0 \<and> ch_pressure sr = ch_pressure sr0"
  using assms
  by (auto simp: checkPortThroat_def Let_def bindE_eq_Inr addAlert_def
           split: option.splits if_splits)

lemma setupGrains_fields [simp]:
  "propellant (setupGrains E mot) = propellant mot"
  "length (grains (setupGrains E mot)) = length (grains mot)"
  "nozzle (setupGrains E mot) = nozzle mot"
  by (simp_all add: setupGrains_def)

lemma entersLoop_invariant:
  assumes enter: "entersLoop E mot s0 pr st0"
      and phys: "\<forall>g \<in> set (grains (setupGrains E mot)).
                   physicalVolume E (burnoutWebThres (config mot)) g"
      and pos: "0 \<le> prop_density pr"
  shows "burnInvariant E (setupGrains E mot) pr st0"
proof -
  let ?mot = "setupGrains E mot"
  let ?im = "map (\<lambda>grain. getVolumeAtRegression E grain 0 * prop_density pr) (grains ?mot)"
  from enter obtain sr where
    pr: "propellant mot = Some pr"
    and i: "initialise E ?mot (prop_density pr) (validate E mot) = Inr sr"
    and st0: "st0 = \<lparr>st_simRes = sr, st_reg = zeros ?mot, st_cb = s0\<rparr>"
    by (auto simp: entersLoop_def split: sum.splits)
  from i obtain sr1 where
    1: "seedSamples E ?mot (prop_density pr) (validate E mot) = Inr sr1"
    and 2: "checkPortThroat E ?mot sr1 = Inr sr"
    by (auto simp: initialise_def bindE_eq_Inr)
  from seedSamples_Inr[OF 1] checkPortThroat_Inr[OF 2] obtain p1 where
    ip: "calcIdealPressure E ?mot (zeros ?mot) None (burnoutWebThres (config ?mot)) = Inr p1"
    and p: "ch_pressure sr = [0, p1]" and m: "ch_mass sr = [?im, ?im]"
    by auto
  have rate: "\<forall>pw. pypow p1 (prop_n pr) = Inr pw \<longrightarrow> 0 \<le> pw"
    using burnRate_nonneg[OF ip, of pr] pr by auto
  have vol: "0 \<le> getVolumeAtRegression E (grains ?mot ! i) 0 * prop_density pr"
    if "i < length (grains ?mot)" for i
  proof -
    from that phys
    have "physicalVolume E (burnoutWebThres (config mot)) (grains ?mot ! i)" by simp
    then have "0 \<le> getVolumeAtRegression E (grains ?mot ! i) 0"
      by (simp add: physicalVolume_def)
    with pos show ?thesis by simp
  qed
  show ?thesis
    unfolding burnInvariant_def Let_def st0
    using vol rate by (simp add: p m zeros_def massOrdered_def)
qed

lemma stateAfter_burnInvariant:
  assumes reach: "stateAfter E mot callback (prop_a pr) (prop_n pr) (prop_density pr) k st0 = Some st"
      and inv: "burnInvariant E mot pr st0"
      and pr: "propellant mot = Some pr"
      and phys: "\<forall>g \<in> set (grains mot). physicalVolume E (burnoutWebThres (config mot)) g"
      and pos: "0 \<le> timestep (config mot)" "0 \<le> prop_a pr" "0 \<le> prop_density pr"
  shows "burnInvariant E mot pr st"
  using reach inv
proof (rule stateAfter_invariant)
  fix s s'
  assume "burnInvariant E mot pr s"
    and "burnStep E mot callback (prop_a pr) (prop_n pr) (prop_density pr) s = Inr (Continue s')"
  from burnStep_invariant[OF this pr phys pos] show "burnInvariant E mot pr s'" by simp
qed

lemma demo_physical: "physicalVolume slabCollab thr demoGrain"
  by (auto simp: physicalVolume_def intro!: mult_left_mono)

lemma linear_physical:
  assumes "0 \<le> area g" "0 \<le> web g" "0 \<le> thr"
  shows "physicalVolume linearCollab thr g"
  using assms
  by (auto simp: physicalVolume_def linearCollab_def slabCollab_def intro!: mult_left_mono
           mult_nonneg_nonneg)

section \<open>The claims\<close>

text \<open>
  C3, as the code has it. A motor with an empty grain list is rejected: the run returns
  the validation result, with success false and every channel empty. Its ERROR alerts
  are the alert located at "Motor" for the missing grains, then the ERROR alerts of the
  nozzle's geometry check, then the alert for a missing propellant when none is set. So
  there is exactly one ERROR alert when the propellant is set and the nozzle reports no
  ERROR, and more than one otherwise.
\<close>

theorem noGrains_rejected:
  assumes "grains mot = []"
  shows "runSimulation E mot callback s0 = Some (Inr (validate E mot))
       \<and> \<not> success (validate E mot)
       \<and> ch_time (validate E mot) = [] \<and> ch_kn (validate E mot) = []
       \<and> ch_pressure (validate E mot) = [] \<and> ch_force (validate E mot) = []
       \<and> ch_mass (validate E mot) = [] \<and> ch_massFlow (validate E mot) = []
       \<and> ch_massFlux (validate E mot) = []
       \<and> getAlertsByLevel ERROR (validate E mot) =
           noGrainsAlert # filter (\<lambda>al. level al = ERROR) (nozzleGeometryErrors E (nozzle mot))
             @ (if propellant mot = None then [noPropellantAlert] else [])
       \<and> location noGrainsAlert = ''Motor''"
proof -
  have al: "getAlertsByLevel ERROR (validate E mot) =
           noGrainsAlert # filter (\<lambda>al. level al = ERROR) (nozzleGeometryErrors E (nozzle mot))
             @ (if propellant mot = None then [noPropellantAlert] else [])"
    using assms by (simp add: getAlertsByLevel_def validationAlerts_noGrains)
  then have "getAlertsByLevel ERROR (validate E mot) \<noteq> []" by simp
  then have "runSimulation E mot callback s0 = Some (Inr (validate E mot))"
    by (rule runSimulation_rejected)
  with al show ?thesis by (simp add: noGrainsAlert_def)
qed

theorem noGrains_rejected_witness:
  "grains noGrainMotor = []
   \<and> runSimulation slabCollab noGrainMotor noCallback () = Some (Inr (validate slabCollab noGrainMotor))
   \<and> \<not> success (validate slabCollab noGrainMotor)
   \<and> ch_time (validate slabCollab noGrainMotor) = []
   \<and> getAlertsByLevel ERROR (validate slabCollab noGrainMotor) = [noGrainsAlert]
   \<and> location noGrainsAlert = ''Motor''"
  using noGrains_rejected[of noGrainMotor slabCollab noCallback "()"] by simp

text \<open>
  C3 as stated fails: the freshly constructed motor has no grain and no propellant, and
  its run carries two ERROR alerts, not exactly one.
\<close>

theorem noGrains_two_errors:
  "grains bareMotor = []
   \<and> runSimulation slabCollab bareMotor noCallback () = Some (Inr (validate slabCollab bareMotor))
   \<and> getAlertsByLevel ERROR (validate slabCollab bareMotor) = [noGrainsAlert, noPropellantAlert]
   \<and> length (getAlertsByLevel ERROR (validate slabCollab bareMotor)) = 2"
proof -
  have al: "getAlertsByLevel ERROR (validate slabCollab bareMotor)
            = [noGrainsAlert, noPropellantAlert]"
    by (simp add: getAlertsByLevel_def validationAlerts_noGrains)
  then have "getAlertsByLevel ERROR (validate slabCollab bareMotor) \<noteq> []" by simp
  then have "runSimulation slabCollab bareMotor noCallback ()
             = Some (Inr (validate slabCollab bareMotor))"
    by (rule runSimulation_rejected)
  with al show ?thesis by simp
qed

text \<open>
  C10. On an empty grain list the read of the aft grain, \<^verbatim>\<open>self.grains[-1]\<close>, would
  raise \<^verbatim>\<open>IndexError\<close>; it is never reached, since validation has added an ERROR alert
  and the run returns the validation result before it. The run ends without an
  exception.
\<close>

theorem emptyGrains_no_fault:
  assumes "grains mot = []"
  shows "checkPortThroat E (setupGrains E mot) simRes = Inl IndexError
       \<and> getAlertsByLevel ERROR (validate E mot) \<noteq> []
       \<and> runSimulation E mot callback s0 = Some (Inr (validate E mot))"
proof -
  have "checkPortThroat E (setupGrains E mot) simRes = Inl IndexError"
    using assms by (simp add: checkPortThroat_def setupGrains_def getLast_def)
  moreover have ne: "getAlertsByLevel ERROR (validate E mot) \<noteq> []"
    using assms by (simp add: getAlertsByLevel_def validationAlerts_noGrains)
  moreover have "runSimulation E mot callback s0 = Some (Inr (validate E mot))"
    using ne by (rule runSimulation_rejected)
  ultimately show ?thesis by simp
qed

theorem emptyGrains_no_fault_witness:
  "grains bareMotor = []
   \<and> checkPortThroat slabCollab (setupGrains slabCollab bareMotor) newSimulationResult
       = Inl IndexError
   \<and> runSimulation slabCollab bareMotor noCallback () = Some (Inr (validate slabCollab bareMotor))"
  using emptyGrains_no_fault[of bareMotor slabCollab newSimulationResult noCallback "()"] by simp

text \<open>
  C9. Whenever \<^verbatim>\<open>runSimulation\<close> returns a result (after a rejection, after a
  cancellation or after burnout), its seven channels \<open>time\<close>, \<open>kn\<close>, \<open>pressure\<close>,
  \<open>force\<close>, \<open>mass\<close>, \<open>massFlow\<close> and \<open>massFlux\<close> hold the same number of samples.
\<close>

theorem channels_same_length:
  assumes "runSimulation E mot callback s0 = Some (Inr res)"
  shows "length (ch_kn res) = length (ch_time res)
       \<and> length (ch_pressure res) = length (ch_time res)
       \<and> length (ch_force res) = length (ch_time res)
       \<and> length (ch_mass res) = length (ch_time res)
       \<and> length (ch_massFlow res) = length (ch_time res)
       \<and> length (ch_massFlux res) = length (ch_time res)"
proof -
  have "\<exists>n. balanced res n"
    using assms
  proof (cases rule: runSimulation_Inr)
    case rejected
    then show ?thesis using balanced_validate by blast
  next
    case (cancelled pr st0)
    from burnLoop_balanced[OF cancelled(2) entersLoop_balanced[OF cancelled(1)]]
    show ?thesis by (simp add: flowResult_def)
  next
    case (burnout pr st0 st)
    from burnLoop_balanced[OF burnout(2) entersLoop_balanced[OF burnout(1)]]
    obtain m where "balanced (st_simRes st) m" by (auto simp: flowResult_def)
    with finish_balanced[OF burnout(3)] show ?thesis by blast
  qed
  then show ?thesis by (auto simp: balanced_def)
qed

theorem channels_same_length_witness:
  "runSimulation slabCollab demoMotor (Some cancelAtSecond) 0 = Some (Inr demoStep2)
   \<and> length (ch_kn demoStep2) = length (ch_time demoStep2)
   \<and> length (ch_pressure demoStep2) = length (ch_time demoStep2)
   \<and> length (ch_force demoStep2) = length (ch_time demoStep2)
   \<and> length (ch_mass demoStep2) = length (ch_time demoStep2)
   \<and> length (ch_massFlow demoStep2) = length (ch_time demoStep2)
   \<and> length (ch_massFlux demoStep2) = length (ch_time demoStep2)
   \<and> length (ch_time demoStep2) = 4"
proof -
  have run: "runSimulation slabCollab demoMotor (Some cancelAtSecond) 0 = Some (Inr demoStep2)"
    by (simp add: runSimulation_entered[OF demo_entersLoop] burnLoop_cancelled[OF demo_cancelledAt])
  have "length (ch_time demoStep2) = 4"
    by (simp add: demoStep2_def demoStep1_def appended_def)
  with run channels_same_length[OF run] show ?thesis by simp
qed

text \<open>
  C4, as the code has it. When the callback answers true at its \<open>k\<close>-th invocation, the
  run halts there and returns the partial result: success is false, no alert is of level
  ERROR, and every channel holds \<open>k + 2\<close> samples. The alerts of the result are those the
  run had on entering the loop: the warnings of validation and the port/throat warning,
  if any. A rejected run, in contrast, returns with success false and at least one ERROR
  alert.
\<close>

theorem cancelled_run:
  assumes enter: "entersLoop E mot s0 pr st0"
      and cancel: "cancelledAt E (setupGrains E mot) cbf (prop_a pr) (prop_n pr) (prop_density pr)
                     k st0 = Some res"
  shows "runSimulation E mot (Some cbf) s0 = Some (Inr res)
       \<and> \<not> success res
       \<and> getAlertsByLevel ERROR res = []
       \<and> alerts res = alerts (st_simRes st0)
       \<and> length (ch_time res) = k + 2 \<and> length (ch_kn res) = k + 2
       \<and> length (ch_pressure res) = k + 2 \<and> length (ch_force res) = k + 2
       \<and> length (ch_mass res) = k + 2 \<and> length (ch_massFlow res) = k + 2
       \<and> length (ch_massFlux res) = k + 2
       \<and> (\<forall>mot2 callback2 s2. getAlertsByLevel ERROR (validate E mot2) \<noteq> [] \<longrightarrow>
            runSimulation E mot2 callback2 s2 = Some (Inr (validate E mot2))
            \<and> \<not> success (validate E mot2))"
proof -
  let ?mot = "setupGrains E mot"
  from cancel obtain st where
    k0: "0 < k"
    and k: "stateAfter E ?mot (Some cbf) (prop_a pr) (prop_n pr) (prop_density pr) (k - 1) st0
            = Some st"
    and b: "burnStep E ?mot (Some cbf) (prop_a pr) (prop_n pr) (prop_density pr) st
            = Inr (Return res)"
    by (rule cancelledAt_Some)
  have run: "runSimulation E mot (Some cbf) s0 = Some (Inr res)"
    by (simp add: runSimulation_entered[OF enter] burnLoop_cancelled[OF cancel])
  have al: "alerts res = alerts (st_simRes st0)" and su: "success res = success (st_simRes st0)"
    using burnStep_alerts[OF b] stateAfter_alerts[OF k] by (simp_all add: flowResult_def)
  with entersLoop_alerts[OF enter] have ok: "\<not> success res" "getAlertsByLevel ERROR res = []"
    by (simp_all add: getAlertsByLevel_def)
  have "balanced (st_simRes st) (2 + (k - 1))"
    using k entersLoop_balanced[OF enter] by (rule stateAfter_balanced)
  from burnStep_balanced[OF b this] k0 have len: "balanced res (k + 2)"
    by (simp add: flowResult_def)
  have rej: "\<forall>mot2 callback2 s2. getAlertsByLevel ERROR (validate E mot2) \<noteq> [] \<longrightarrow>
            runSimulation E mot2 callback2 s2 = Some (Inr (validate E mot2))
            \<and> \<not> success (validate E mot2)"
    by (simp add: runSimulation_rejected)
  from run ok al len rej show ?thesis unfolding balanced_def by blast
qed

theorem cancelled_run_witness:
  "entersLoop slabCollab demoMotor 0 demoPropellant demoStart
   \<and> cancelledAt slabCollab (setupGrains slabCollab demoMotor) cancelAtSecond
        (prop_a demoPropellant) (prop_n demoPropellant) (prop_density demoPropellant) 2 demoStart
       = Some demoStep2
   \<and> runSimulation slabCollab demoMotor (Some cancelAtSecond) 0 = Some (Inr demoStep2)
   \<and> \<not> success demoStep2
   \<and> getAlertsByLevel ERROR demoStep2 = []
   \<and> length (ch_time demoStep2) = 4 \<and> length (ch_mass demoStep2) = 4"
proof -
  have c: "cancelledAt slabCollab (setupGrains slabCollab demoMotor) cancelAtSecond
        (prop_a demoPropellant) (prop_n demoPropellant) (prop_density demoPropellant) 2 demoStart
       = Some demoStep2"
    by (simp add: demo_cancelledAt)
  from cancelled_run[OF demo_entersLoop c] demo_entersLoop c show ?thesis by auto
qed

text \<open>
  C4 as stated fails where it says that a cancelled result carries no alert at all: the
  demo motor's port/throat ratio is 1, below the configured minimum 2, so the warning is
  added before the loop, and the run cancelled at the second callback invocation returns
  it.
\<close>

theorem cancelled_run_has_alert:
  "cancelledAt slabCollab demoMotor cancelAtSecond 1 0 1 2 demoStart = Some demoStep2
   \<and> runSimulation slabCollab demoMotor (Some cancelAtSecond) 0 = Some (Inr demoStep2)
   \<and> alerts demoStep2 = [portThroatAlert slabCollab 1 2]
   \<and> level (portThroatAlert slabCollab 1 2) = WARNING
   \<and> alerts demoStep2 \<noteq> []"
proof -
  have run: "runSimulation slabCollab demoMotor (Some cancelAtSecond) 0 = Some (Inr demoStep2)"
    by (simp add: runSimulation_entered[OF demo_entersLoop] burnLoop_cancelled[OF demo_cancelledAt])
  have "alerts demoStep2 = [portThroatAlert slabCollab 1 2]"
    by (simp add: demoStep2_def demoStep1_def)
  with run demo_cancelledAt show ?thesis by (simp add: portThroatAlert_def)
qed

text \<open>
  C6. \<^verbatim>\<open>calcForce\<close> returns exactly 0 when the chamber pressure it resolves is 0,
  whether given or computed, and this before the exit pressure is asked for (so also
  with a solver that would raise). Whenever it returns a value, the value is not
  negative: a thrust that is NaN or below 0 is replaced by 0, any other is returned as it
  is.
\<close>

theorem calcForce_clamped:
  "(propellant mot \<noteq> None \<longrightarrow> calcForce E mot r (Some 0) p_a thr = Inr 0)
   \<and> (calcIdealPressure E mot r None thr = Inr 0 \<longrightarrow> calcForce E mot r None p_a thr = Inr 0)
   \<and> (\<forall>f. calcForce E mot r casePressure p_a thr = Inr f \<longrightarrow> 0 \<le> f)
   \<and> (\<forall>p_c raw. propellant mot = Some pr \<and> p_c \<noteq> 0 \<and> thrust E mot (prop_k pr) p_c p_a = Inr raw
         \<longrightarrow> calcForce E mot r (Some p_c) p_a thr
             = Inr (case raw of None \<Rightarrow> 0 | Some x \<Rightarrow> if x < 0 then 0 else x))"
proof (intro conjI allI impI)
  show "propellant mot \<noteq> None \<Longrightarrow> calcForce E mot r (Some 0) p_a thr = Inr 0"
    by (rule calcForce_zero_pressure)
  show "calcIdealPressure E mot r None thr = Inr 0 \<Longrightarrow> calcForce E mot r None p_a thr = Inr 0"
    by (rule calcForce_zero_ideal)
  show "\<And>f. calcForce E mot r casePressure p_a thr = Inr f \<Longrightarrow> 0 \<le> f"
    by (rule calcForce_nonneg)
  show "\<And>p_c raw. propellant mot = Some pr \<and> p_c \<noteq> 0
          \<and> thrust E mot (prop_k pr) p_c p_a = Inr raw
        \<Longrightarrow> calcForce E mot r (Some p_c) p_a thr
            = Inr (case raw of None \<Rightarrow> 0 | Some x \<Rightarrow> if x < 0 then 0 else x)"
    by (auto simp: calcForce_def clampForce_def np_isnan_def np_less_def split: option.splits)
qed

theorem calcForce_clamped_witness:
  "propellant demoMotor \<noteq> None
   \<and> calcForce failingCollab demoMotor [0] (Some 0) 10 (1 / 1000) = Inr 0
   \<and> calcForce failingCollab demoMotor [0] (Some 2) 10 (1 / 1000) = Inl ZeroDivisionError
   \<and> thrust slabCollab demoMotor (prop_k demoPropellant) 2 10 = Inr (Some (3 * pi - 10 * pi))
   \<and> calcForce slabCollab demoMotor [0] (Some 2) 10 (1 / 1000) = Inr 0
   \<and> thrust nanCollab demoMotor (prop_k demoPropellant) 2 10 = Inr None
   \<and> calcForce nanCollab demoMotor [0] (Some 2) 10 (1 / 1000) = Inr 0"
proof -
  have p: "propellant demoMotor = Some demoPropellant" by simp
  have neg: "3 * pi - 10 * pi < 0" by simp
  have t1: "thrust slabCollab demoMotor (prop_k demoPropellant) 2 10 = Inr (Some (3 * pi - 10 * pi))"
    by (simp add: demo_thrust_amb)
  have t2: "thrust nanCollab demoMotor (prop_k demoPropellant) 2 10 = Inr None"
    by (simp add: demo_thrust_nan)
  from calcForce_clamped[of demoMotor failingCollab "[0]" 10 "1 / 1000" None demoPropellant]
  have a: "calcForce failingCollab demoMotor [0] (Some 0) 10 (1 / 1000) = Inr 0" using p by simp
  from calcForce_clamped[of demoMotor slabCollab "[0]" 10 "1 / 1000" None demoPropellant] p t1 neg
  have b: "calcForce slabCollab demoMotor [0] (Some 2) 10 (1 / 1000) = Inr 0" by auto
  from calcForce_clamped[of demoMotor nanCollab "[0]" 10 "1 / 1000" None demoPropellant] p t2
  have c: "calcForce nanCollab demoMotor [0] (Some 2) 10 (1 / 1000) = Inr 0" by auto
  from a b c t1 t2 demo_force_failing show ?thesis by simp
qed




text \<open>
  C2, as the code has it. Take any run that has entered the loop, and any state \<open>st\<close> in
  which it tests the loop condition, after \<open>k\<close> completed passes; the force channel then
  holds \<open>k + 2\<close> samples. The test answers whether the last force sample strictly exceeds
  the bound the code computes in double precision: \<open>burnoutThrustThres\<close> times the
  double \<^verbatim>\<open>0.01\<close>, rounded, times the maximum of the force channel, rounded. If it
  does, the loop goes through its body once more from \<open>st\<close>. If it does not, the loop
  ends there: the run returns what the post-run checks make of the result of \<open>st\<close>,
  whose force channel is that of \<open>st\<close>, with no sample added.
\<close>

theorem burnout_criterion:
  assumes enter: "entersLoop E mot s0 pr st0"
      and reach: "stateAfter E (setupGrains E mot) callback (prop_a pr) (prop_n pr)
                    (prop_density pr) k st0 = Some st"
  shows "let F = ch_force (st_simRes st);
             bar = fmul (fmul (Finite (burnoutThrustThres (config mot)))
                           (Finite (roundDouble (1 / 100))))
                     (Finite (Max (set F)))
         in length F = k + 2
          \<and> loopCondition (setupGrains E mot) (st_simRes st) = Inr (fgreater (last F) bar)
          \<and> (fgreater (last F) bar \<longrightarrow>
               burnLoop E (setupGrains E mot) callback (prop_a pr) (prop_n pr) (prop_density pr) st0
               = (case burnStep E (setupGrains E mot) callback (prop_a pr) (prop_n pr)
                         (prop_density pr) st of
                    Inl e \<Rightarrow> Some (Inl e)
                  | Inr (Return res) \<Rightarrow> Some (Inr (Return res))
                  | Inr (Continue st') \<Rightarrow>
                      burnLoop E (setupGrains E mot) callback (prop_a pr) (prop_n pr)
                        (prop_density pr) st'))
          \<and> (\<not> fgreater (last F) bar \<longrightarrow>
               runSimulation E mot callback s0 = Some (finish (setupGrains E mot) (st_simRes st)))
          \<and> (\<forall>res. finish (setupGrains E mot) (st_simRes st) = Inr res \<longrightarrow> ch_force res = F)"
proof -
  let ?mot = "setupGrains E mot"
  let ?F = "ch_force (st_simRes st)"
  let ?bar = "fmul (fmul (Finite (burnoutThrustThres (config mot)))
                      (Finite (roundDouble (1 / 100))))
                (Finite (Max (set ?F)))"
  let ?loop = "burnLoop E ?mot callback (prop_a pr) (prop_n pr) (prop_density pr)"
  have "balanced (st_simRes st) (2 + k)"
    using reach entersLoop_balanced[OF enter] by (rule stateAfter_balanced)
  then have len: "length ?F = k + 2" by (simp add: balanced_def)
  then have ne: "?F \<noteq> []" by auto
  have cond: "loopCondition ?mot (st_simRes st) = Inr (fgreater (last ?F) ?bar)"
    using loopCondition_eq[OF ne, of ?mot] by (simp add: thrustBar_def lit001_def)
  have unroll: "?loop st0 = ?loop st" using reach by (rule burnLoop_unroll)
  have go: "?loop st0 = (case burnStep E ?mot callback (prop_a pr) (prop_n pr) (prop_density pr) st of
                    Inl e \<Rightarrow> Some (Inl e)
                  | Inr (Return res) \<Rightarrow> Some (Inr (Return res))
                  | Inr (Continue st') \<Rightarrow> ?loop st')"
    if "fgreater (last ?F) ?bar"
  proof -
    from that have "fgreater (last ?F) ?bar = True" by blast
    with cond have c: "loopCondition ?mot (st_simRes st) = Inr True" by (simp only:)
    show ?thesis unfolding unroll by (subst burnLoop.simps) (simp only: c sum.case if_True)
  qed
  have stop: "runSimulation E mot callback s0 = Some (finish ?mot (st_simRes st))"
    if "\<not> fgreater (last ?F) ?bar"
  proof -
    from that have "fgreater (last ?F) ?bar = False" by blast
    with cond have c: "loopCondition ?mot (st_simRes st) = Inr False" by (simp only:)
    have "?loop st = Some (Inr (Continue st))"
      by (subst burnLoop.simps) (simp only: c sum.case if_False)
    with unroll show ?thesis by (simp add: runSimulation_entered[OF enter])
  qed
  have fin: "\<forall>res. finish ?mot (st_simRes st) = Inr res \<longrightarrow> ch_force res = ?F"
    by (simp add: finish_force)
  show ?thesis
    unfolding Let_def using len cond go stop fin by (intro conjI impI) simp_all
qed

theorem burnout_criterion_witness:
  "entersLoop slabCollab flashMotor () demoPropellant flashStart
   \<and> stateAfter slabCollab (setupGrains slabCollab flashMotor) noCallback
        (prop_a demoPropellant) (prop_n demoPropellant) (prop_density demoPropellant) 1 flashStart
       = Some flashEnd
   \<and> ch_force (st_simRes flashEnd) = [0, 17 * pi, 0]
   \<and> length (ch_force (st_simRes flashEnd)) = 1 + 2
   \<and> loopCondition flashMotor (st_simRes flashEnd) = Inr False
   \<and> runSimulation slabCollab flashMotor noCallback ()
       = Some (finish flashMotor (st_simRes flashEnd))"
proof -
  have r: "stateAfter slabCollab (setupGrains slabCollab flashMotor) noCallback
        (prop_a demoPropellant) (prop_n demoPropellant) (prop_density demoPropellant) 1 flashStart
       = Some flashEnd"
    using flash_stateAfter by simp
  note main = burnout_criterion[OF flash_entersLoop r, unfolded Let_def]
  from main have c: "loopCondition flashMotor (st_simRes flashEnd)
      = Inr (fgreater (last (ch_force (st_simRes flashEnd)))
               (fmul (fmul (Finite (burnoutThrustThres (config flashMotor)))
                        (Finite (roundDouble (1 / 100))))
                  (Finite (Max (set (ch_force (st_simRes flashEnd)))))))"
    by simp
  with flash_cond_end
  have stop: "\<not> fgreater (last (ch_force (st_simRes flashEnd)))
               (fmul (fmul (Finite (burnoutThrustThres (config flashMotor)))
                        (Finite (roundDouble (1 / 100))))
                  (Finite (Max (set (ch_force (st_simRes flashEnd))))))"
    by simp
  from main stop have run: "runSimulation slabCollab flashMotor noCallback ()
       = Some (finish flashMotor (st_simRes flashEnd))"
    by simp
  from flash_entersLoop r flash_force_channel flash_cond_end run show ?thesis by simp
qed

text \<open>
  C2 as stated fails at the boundary it speaks of. Take the threshold \<^verbatim>\<open>0.23\<close> and a
  force channel that peaks at \<^verbatim>\<open>25.0\<close> and ends with \<^verbatim>\<open>0.0575\<close>: as doubles, the last
  sample is exactly \<open>burnoutThrustThres / 100\<close> times the peak. The code multiplies
  \<^verbatim>\<open>0.23 * 0.01\<close>, rounds, multiplies by \<^verbatim>\<open>25.0\<close> and rounds again, to the double
  next below the last sample; the condition holds and the loop goes on. In the other
  direction, with a threshold of 1 and a peak of 1, the last sample \<^verbatim>\<open>0.01\<close> is a
  double above one hundredth, so above 1 percent of the peak, yet it does not exceed the
  bound the code computes, and the loop ends.
\<close>

theorem burnout_boundary_rounds:
  "burnoutThrustThres (config boundaryMotor) = roundDouble (23 / 100)
   \<and> ch_force boundaryResult = [0, 25, roundDouble (575 / 10000)]
   \<and> last (ch_force boundaryResult)
       = burnoutThrustThres (config boundaryMotor) / 100 * Max (set (ch_force boundaryResult))
   \<and> last (ch_force boundaryResult) = 8286623314361713 / 2 ^ 57
   \<and> thrustBar (burnoutThrustThres (config boundaryMotor)) (Max (set (ch_force boundaryResult)))
       = Finite (8286623314361712 / 2 ^ 57)
   \<and> loopCondition boundaryMotor boundaryResult = Inr True
   \<and> burnoutThrustThres (config demoMotor) = 1
   \<and> ch_force aboveResult = [0, 1, roundDouble (1 / 100)]
   \<and> burnoutThrustThres (config demoMotor) / 100 * Max (set (ch_force aboveResult))
       < last (ch_force aboveResult)
   \<and> loopCondition demoMotor aboveResult = Inr False"
proof -
  have t: "burnoutThrustThres (config boundaryMotor) = roundDouble (23 / 100)"
    by (simp add: boundaryMotor_def)
  have f: "ch_force boundaryResult = [0, 25, roundDouble (575 / 10000)]"
    by (simp add: boundaryResult_def)
  have mx: "Max (set (ch_force boundaryResult)) = 25"
    unfolding f double_00575 by simp
  have l: "last (ch_force boundaryResult) = 8286623314361713 / 2 ^ 57"
    unfolding f double_00575 by simp
  have eq: "last (ch_force boundaryResult)
       = burnoutThrustThres (config boundaryMotor) / 100 * Max (set (ch_force boundaryResult))"
    unfolding l mx t double_023 by simp
  have bar: "thrustBar (burnoutThrustThres (config boundaryMotor))
               (Max (set (ch_force boundaryResult))) = Finite (8286623314361712 / 2 ^ 57)"
    unfolding t mx by (rule thrustBar_boundary)
  have ne: "ch_force boundaryResult \<noteq> []" unfolding f by simp
  have c: "loopCondition boundaryMotor boundaryResult = Inr True"
    unfolding loopCondition_eq[OF ne] bar l by simp
  have f2: "ch_force aboveResult = [0, 1, roundDouble (1 / 100)]"
    by (simp add: aboveResult_def)
  have v: "roundDouble (1 / 100) = 5764607523034235 / 2 ^ 59"
    using lit001_value by (simp add: lit001_def)
  have mx2: "Max (set (ch_force aboveResult)) = 1" unfolding f2 v by simp
  have l2: "last (ch_force aboveResult) = roundDouble (1 / 100)" unfolding f2 by simp
  have gt: "burnoutThrustThres (config demoMotor) / 100 * Max (set (ch_force aboveResult))
       < last (ch_force aboveResult)"
    unfolding mx2 l2 v by simp
  have ne2: "ch_force aboveResult \<noteq> []" unfolding f2 by simp
  have c2: "loopCondition demoMotor aboveResult = Inr False"
    unfolding loopCondition_eq[OF ne2] mx2 l2 by (simp add: thrustBar_above)
  from t f eq l bar c f2 gt c2 show ?thesis by simp
qed

text \<open>
  C7. \<^verbatim>\<open>getDict\<close> followed by \<^verbatim>\<open>applyDict\<close> gives the motor back, so the rebuilt motor
  serializes to an equal record and runs to an identical result. The property
  collections and the grain registry are parameters here, and the theorem asks of them
  what the round trip needs: that setting the properties read from the nozzle, from the
  configuration and from each grain (on the grain the registry builds for its tag)
  restores them, and that a propellant built from its own properties is the same
  propellant.
\<close>

theorem dict_roundtrip:
  assumes nz: "nozzleSetProperties P (nozzleGetProperties P (nozzle mot)) (nozzle self) = nozzle mot"
      and pr: "\<forall>pr. propellant mot = Some pr \<longrightarrow> newPropellant P (propellantGetProperties P pr) = pr"
      and gr: "\<forall>g \<in> set (grains mot). \<exists>fresh. grainTypes P (geomName P g) = Some fresh
                 \<and> grainSetProperties P (grainGetProperties P g) fresh = g"
      and cf: "configSetProperties P (configGetProperties P (config mot)) (config self) = config mot"
  shows "applyDict P (getDict P mot) self = Inr mot
       \<and> (case applyDict P (getDict P mot) self of
            Inl e \<Rightarrow> False
          | Inr mot' \<Rightarrow> getDict P mot' = getDict P mot
                       \<and> runSimulation E mot' callback s0 = runSimulation E mot callback s0)"
proof -
  have g: "mapE (grainFromEntry P)
             (map (\<lambda>grain. \<lparr>entry_type = geomName P grain,
                             entry_properties = grainGetProperties P grain\<rparr>) (grains mot))
           = Inr (grains mot)"
    using gr by (intro mapE_map_Inr) (auto simp: grainFromEntry_def)
  have p: "(case (case propellant mot of Some pr \<Rightarrow> Some (propellantGetProperties P pr)
                  | None \<Rightarrow> None) of
              Some d \<Rightarrow> Some (newPropellant P d) | None \<Rightarrow> None) = propellant mot"
    using pr by (cases "propellant mot") simp_all
  have "applyDict P (getDict P mot) self = Inr mot"
    by (simp add: applyDict_def getDict_def Let_def g p nz cf)
  then show ?thesis by simp
qed

theorem dict_roundtrip_witness:
  "applyDict slabIO (getDict slabIO demoMotor) bareMotor = Inr demoMotor
   \<and> md_grains (getDict slabIO demoMotor)
       = [\<lparr>entry_type = ''Slab'', entry_properties = [1 / 4, pi, pi]\<rparr>]
   \<and> md_nozzle (getDict slabIO demoMotor) = [2, 2, 1]"
proof -
  have 1: "nozzleSetProperties slabIO (nozzleGetProperties slabIO (nozzle demoMotor))
             (nozzle bareMotor) = nozzle demoMotor"
    by (simp add: slabIO_def demoNozzle_def)
  have 2: "\<forall>pr. propellant demoMotor = Some pr
             \<longrightarrow> newPropellant slabIO (propellantGetProperties slabIO pr) = pr"
    by (simp add: slabIO_def)
  have 3: "\<forall>g \<in> set (grains demoMotor). \<exists>fresh. grainTypes slabIO (geomName slabIO g) = Some fresh
             \<and> grainSetProperties slabIO (grainGetProperties slabIO g) fresh = g"
    by (simp add: slabIO_def demoGrain_def)
  have 4: "configSetProperties slabIO (configGetProperties slabIO (config demoMotor))
             (config bareMotor) = config demoMotor"
    by (simp add: slabIO_def demoConfig_def)
  have 5: "md_grains (getDict slabIO demoMotor)
       = [\<lparr>entry_type = ''Slab'', entry_properties = [1 / 4, pi, pi]\<rparr>]"
    by (simp add: getDict_def slabIO_def)
  have 6: "md_nozzle (getDict slabIO demoMotor) = [2, 2, 1]"
    by (simp add: getDict_def slabIO_def demoNozzle_def)
  from dict_roundtrip[OF 1 2 3 4, of slabCollab noCallback "()"] 5 6 show ?thesis by simp
qed

text \<open>
  C1, at an input where the code departs from it. In the second step of the demo run the
  grain's regression goes from 1/10 to 1/5. The mass the sweep records is 3\<pi>/20, the
  volume at the regression 1/10 it had before the step times the density; the volume at
  the updated regression 1/5 times the density is \<pi>/20. The other parts of the claim
  hold there: the mass flux \<pi> is computed from the upstream flow 0, and the difference
  of the old and the new mass over the timestep, \<pi>, is what is passed on and recorded
  as the mass flow.
\<close>

theorem sweep_mass_lags:
  "sweep slabCollab demoMotor demoStep1 (prop_a demoPropellant) (prop_n demoPropellant)
     (prop_density demoPropellant) [1 / 10]
   = Inr \<lparr>mf = pi, perGrainMass = [3 * pi / 20], perGrainMassFlow = [pi],
          perGrainMassFlux = [pi], perGrainReg = [1 / 5]\<rparr>
   \<and> getVolumeAtRegression slabCollab demoGrain (1 / 10) * prop_density demoPropellant
       = 3 * pi / 20
   \<and> getVolumeAtRegression slabCollab demoGrain (1 / 5) * prop_density demoPropellant
       = pi / 20"
proof -
  have "sweep slabCollab demoMotor demoStep1 1 0 1 [1 / 10]
        = Inr \<lparr>mf = (pi / 4 - pi * (1 / 4 - 1 / 10)) * 10,
               perGrainMass = [pi * (1 / 4 - 1 / 10)],
               perGrainMassFlow = [(pi / 4 - pi * (1 / 4 - 1 / 10)) * 10],
               perGrainMassFlux = [pi], perGrainReg = [1 / 10 + 1 / 10]\<rparr>"
    by (rule demo_sweep) (simp_all add: demoStep1_def appended_def)
  then show ?thesis by (simp add: algebra_simps)
qed




end
